theory Spec2Isabelle
  imports Main "HOL-Library.AList"
begin

section \<open>Python values\<close>

text \<open>
  The scheduler helper handles request parameters (\<open>args: Dict[str, Any]\<close>) and the JSON
  objects of the Cloud Scheduler API. Both are values of one type: \<open>None\<close>, booleans,
  unbounded integers, strings, lists and dictionaries with string keys. A dictionary is an
  association list in insertion order; the first entry of a key is the one that counts.
  A \<open>char\<close> stands for the code point of the same number, so strings range over the
  code points below 256. Floating point numbers are not represented.
\<close>

datatype pyval = PNone | PBool bool | PInt int | PStr string
  | PList "pyval list" | PDict "(string \<times> pyval) list"

type_synonym dict = "(string \<times> pyval) list"

text \<open>Truth value testing, as \<open>if x\<close>, \<open>not x\<close> and \<open>x or y\<close> do it.\<close>

fun truthy :: "pyval \<Rightarrow> bool" where
  "truthy PNone = False"
| "truthy (PBool b) = b"
| "truthy (PInt i) = (i \<noteq> 0)"
| "truthy (PStr s) = (s \<noteq> [])"
| "truthy (PList xs) = (xs \<noteq> [])"
| "truthy (PDict d) = (d \<noteq> [])"

text \<open>\<open>d.get(k, default)\<close> and \<open>d.get(k)\<close> on a dictionary.\<close>

definition dict_get :: "dict \<Rightarrow> string \<Rightarrow> pyval \<Rightarrow> pyval" where
  "dict_get d k dflt = (case map_of d k of None \<Rightarrow> dflt | Some v \<Rightarrow> v)"

abbreviation get :: "dict \<Rightarrow> string \<Rightarrow> pyval" where
  "get d k \<equiv> dict_get d k PNone"

text \<open>\<open>d.update({k1: v1, ...})\<close>: existing keys keep their place, new keys are appended.\<close>

definition dict_update :: "dict \<Rightarrow> dict \<Rightarrow> dict" where
  "dict_update d kvs = fold (\<lambda>kv. AList.update (fst kv) (snd kv)) kvs d"

subsection \<open>\<open>str()\<close> and f-string formatting\<close>

fun dec_digits :: "nat \<Rightarrow> string" where
  "dec_digits n = (if n < 10 then [''0123456789'' ! n]
                   else dec_digits (n div 10) @ [''0123456789'' ! (n mod 10)])"

declare dec_digits.simps [simp del]

definition hex2 :: "nat \<Rightarrow> string" where
  "hex2 n = [''0123456789abcdef'' ! (n div 16 mod 16), ''0123456789abcdef'' ! (n mod 16)]"

definition printable :: "char \<Rightarrow> bool" where
  "printable c = (let n = (of_char c :: nat) in
     (32 \<le> n \<and> n < 127) \<or> (161 \<le> n \<and> n \<noteq> 173))"

definition repr_char :: "char \<Rightarrow> char \<Rightarrow> string" where
  "repr_char q c =
     (if c = q \<or> c = CHR 0x5C then [CHR 0x5C, c]
      else if c = CHR 0x09 then [CHR 0x5C, CHR ''t'']
      else if c = CHR 0x0A then [CHR 0x5C, CHR ''n'']
      else if c = CHR 0x0D then [CHR 0x5C, CHR ''r'']
      else if printable c then [c]
      else [CHR 0x5C, CHR ''x''] @ hex2 (of_char c))"

definition repr_str :: "string \<Rightarrow> string" where
  "repr_str s =
     (let q = (if CHR 0x27 \<in> set s \<and> CHR 0x22 \<notin> set s then CHR 0x22 else CHR 0x27)
      in [q] @ concat (map (repr_char q) s) @ [q])"

fun join :: "string \<Rightarrow> string list \<Rightarrow> string" where
  "join sep [] = []"
| "join sep [x] = x"
| "join sep (x # y # ys) = x @ sep @ join sep (y # ys)"

fun py_repr :: "pyval \<Rightarrow> string" where
  "py_repr PNone = ''None''"
| "py_repr (PBool b) = (if b then ''True'' else ''False'')"
| "py_repr (PInt i) = (if i < 0 then ''-'' @ dec_digits (nat (- i)) else dec_digits (nat i))"
| "py_repr (PStr s) = repr_str s"
| "py_repr (PList xs) = ''['' @ join '', '' (map py_repr xs) @ '']''"
| "py_repr (PDict d) =
     ''{'' @ join '', '' (map (\<lambda>kv. repr_str (fst kv) @ '': '' @ py_repr (snd kv)) d) @ ''}''"

text \<open>\<open>str(v)\<close>, which is also what \<open>f"{v}"\<close> inserts for these values.\<close>

fun py_str :: "pyval \<Rightarrow> string" where
  "py_str (PStr s) = s"
| "py_str v = py_repr v"

subsection \<open>Equality\<close>

text \<open>\<open>a == b\<close>. Booleans compare as the integers 0 and 1; dictionaries compare by content.\<close>

fun py_eq :: "pyval \<Rightarrow> pyval \<Rightarrow> bool" where
  "py_eq PNone PNone = True"
| "py_eq (PBool a) (PBool b) = (a = b)"
| "py_eq (PBool a) (PInt j) = ((if a then 1 else 0) = j)"
| "py_eq (PInt i) (PBool b) = (i = (if b then 1 else 0))"
| "py_eq (PInt i) (PInt j) = (i = j)"
| "py_eq (PStr s) (PStr t) = (s = t)"
| "py_eq (PList xs) (PList ys) = list_all2 py_eq xs ys"
| "py_eq (PDict d) (PDict e) =
     (set (map fst d) = set (map fst e) \<and>
      (\<forall>kv \<in> set d. case map_of e (fst kv) of None \<Rightarrow> False | Some w \<Rightarrow> py_eq (snd kv) w))"
| "py_eq _ _ = False"

section \<open>Exceptions and results\<close>

datatype error =
    KeyError string
  | IndexError
  | TypeError
  | AttributeError
  | HttpError string
  | JSONDecodeError
  | OtherError string

text \<open>\<open>v[k]\<close> with a string key: only a dictionary can answer.\<close>

fun py_getitem :: "pyval \<Rightarrow> string \<Rightarrow> error + pyval" where
  "py_getitem (PDict d) k = (case map_of d k of None \<Rightarrow> Inl (KeyError k) | Some v \<Rightarrow> Inr v)"
| "py_getitem _ k = Inl TypeError"

text \<open>\<open>v.get(k, default)\<close>: only a dictionary has the method.\<close>

fun py_get :: "pyval \<Rightarrow> string \<Rightarrow> pyval \<Rightarrow> error + pyval" where
  "py_get (PDict d) k dflt = Inr (dict_get d k dflt)"
| "py_get _ k dflt = Inl AttributeError"

text \<open>The elements a \<open>for\<close> loop or \<open>list.extend\<close> draws from a value.\<close>

fun py_iter :: "pyval \<Rightarrow> error + pyval list" where
  "py_iter (PList xs) = Inr xs"
| "py_iter (PStr s) = Inr (map (\<lambda>c. PStr [c]) s)"
| "py_iter (PDict d) = Inr (map (\<lambda>kv. PStr (fst kv)) d)"
| "py_iter _ = Inl TypeError"

text \<open>\<open>xs[-1]\<close>.\<close>

definition last_item :: "'a list \<Rightarrow> error + 'a" where
  "last_item xs = (if xs = [] then Inl IndexError else Inr (last xs))"

definition bind_result :: "error + 'a \<Rightarrow> ('a \<Rightarrow> error + 'b) \<Rightarrow> error + 'b" where
  "bind_result m f = (case m of Inl e \<Rightarrow> Inl e | Inr x \<Rightarrow> f x)"

text \<open>A comprehension \<open>[f(x) for x in xs]\<close> whose body may raise.\<close>

fun map_result :: "('a \<Rightarrow> error + 'b) \<Rightarrow> 'a list \<Rightarrow> error + 'b list" where
  "map_result f [] = Inr []"
| "map_result f (x # xs) =
     bind_result (f x) (\<lambda>y. bind_result (map_result f xs) (\<lambda>ys. Inr (y # ys)))"

text \<open>\<open>filter(p, xs)\<close>, drawn to the end, with a predicate that may raise.\<close>

fun filter_result :: "('a \<Rightarrow> error + bool) \<Rightarrow> 'a list \<Rightarrow> error + 'a list" where
  "filter_result p [] = Inr []"
| "filter_result p (x # xs) =
     bind_result (p x) (\<lambda>b. bind_result (filter_result p xs)
       (\<lambda>ys. Inr (if b then x # ys else ys)))"

section \<open>The remote service\<close>

text \<open>
  The requests of the Cloud Scheduler REST surface the helper issues, with their keyword
  arguments.
\<close>

datatype request =
    LocationsList string
  | JobsList string pyval
  | JobsGet string
  | JobsDelete string
  | JobsResume string
  | JobsPause string
  | JobsCreate string pyval

text \<open>
  A call changes the remote state \<open>'r\<close> and either returns or raises. What the parameters
  of an operation do not determine is gathered in the client: the value of the environment
  variable \<open>API_KEY\<close>, \<open>Fetcher.fetch\<close> (inherited by \<open>Scheduler\<close>; its definition is not
  part of the sources at hand), \<open>method(**kwargs).execute()\<close> of the discovery client,
  and \<open>json.loads\<close>. \<open>DiscoverService.get_service\<close> is taken to hand out the service these
  calls go to.
\<close>

type_synonym ('a, 'r) io = "'r \<Rightarrow> (error + 'a) \<times> 'r"

record 'r client =
  api_key :: "string option"
  fetch :: "request \<Rightarrow> (dict, 'r) io"
  execute :: "request \<Rightarrow> (pyval, 'r) io"
  json_loads :: "string \<Rightarrow> error + pyval"

definition io_return :: "'a \<Rightarrow> ('a, 'r) io" where
  "io_return x r = (Inr x, r)"

definition io_raise :: "error \<Rightarrow> ('a, 'r) io" where
  "io_raise e r = (Inl e, r)"

definition io_lift :: "error + 'a \<Rightarrow> ('a, 'r) io" where
  "io_lift m r = (m, r)"

definition io_bind :: "('a, 'r) io \<Rightarrow> ('a \<Rightarrow> ('b, 'r) io) \<Rightarrow> ('b, 'r) io" where
  "io_bind m f r = (case m r of (Inl e, r') \<Rightarrow> (Inl e, r') | (Inr x, r') \<Rightarrow> f x r')"

text \<open>\<open>os.environ['API_KEY']\<close>, evaluated as an argument of \<open>get_service\<close>.\<close>

definition get_service :: "'r client \<Rightarrow> (unit, 'r) io" where
  "get_service c = (case api_key c of None \<Rightarrow> io_raise (KeyError ''API_KEY'')
                                     | Some k \<Rightarrow> io_return ())"

section \<open>Resource names\<close>

text \<open>The class methods of \<open>appengine/classes/scheduler.py\<close>.\<close>

definition job_path :: "pyval \<Rightarrow> pyval \<Rightarrow> pyval \<Rightarrow> string" where
  "job_path project location job =
     ''projects/'' @ py_str project @ ''/locations/'' @ py_str location
       @ ''/jobs/'' @ py_str job"

definition location_path :: "pyval \<Rightarrow> pyval \<Rightarrow> string" where
  "location_path project location =
     ''projects/'' @ py_str project @ ''/locations/'' @ py_str location"

definition project_path :: "pyval \<Rightarrow> string" where
  "project_path project = ''projects/'' @ py_str project"

text \<open>
  Modelled from the spec: \<open>scheduler.CloudSchedulerClient.job_path\<close>, \<open>location_path\<close> and
  \<open>project_path\<close> belong to the google-cloud-scheduler library and are missing from the
  sources. The spec gives the job naming convention
  \<open>projects/{project}/locations/{location}/jobs/{job}\<close>; the location and the project name
  are its prefixes.
\<close>

definition client_job_path :: "pyval \<Rightarrow> pyval \<Rightarrow> pyval \<Rightarrow> string" where
  "client_job_path project location job =
     ''projects/'' @ py_str project @ ''/locations/'' @ py_str location
       @ ''/jobs/'' @ py_str job"

definition client_location_path :: "pyval \<Rightarrow> pyval \<Rightarrow> string" where
  "client_location_path project location =
     ''projects/'' @ py_str project @ ''/locations/'' @ py_str location"

definition client_project_path :: "pyval \<Rightarrow> string" where
  "client_project_path project = ''projects/'' @ py_str project"

section \<open>The job specification of \<open>process\<close>\<close>

text \<open>
  \<open>random.seed(uuid.uuid4()); random.randrange(start, stop)\<close>: the standard library
  returns an integer \<open>n\<close> with \<open>start \<le> n < stop\<close>, each of them possible. The draw of the
  generator is a parameter.
\<close>

definition randrange :: "nat \<Rightarrow> int \<Rightarrow> int \<Rightarrow> int" where
  "randrange draw start stop = start + int draw mod (stop - start)"

text \<open>
  The local variables the \<open>if\<close>/\<open>elif\<close> chain of the \<open>create\<close> action assigns:
  \<open>product\<close>, \<open>_type\<close>, \<open>hour\<close>, \<open>action\<close>, \<open>topic\<close>, the updated \<open>_attrs\<close>, and \<open>args\<close>
  (which one branch writes to).
\<close>

record selection =
  s_product :: pyval
  s_type :: pyval
  s_hour :: pyval
  s_action :: string
  s_topic :: string
  s_attrs :: dict
  s_args :: dict

text \<open>All local variables of the \<open>create\<close> action at the call of \<open>create_job\<close>.\<close>

record create_vars =
  v_minute :: pyval
  v_hour :: pyval
  v_action :: string
  v_topic :: string
  v_product :: pyval
  v_type :: pyval
  v_attrs :: dict
  v_name :: string
  v_schedule :: string
  v_job :: dict

text \<open>\<open>process\<close>, action \<open>create\<close>: the initial \<open>_attrs\<close> (both files).\<close>

definition initial_attrs :: "dict \<Rightarrow> dict" where
  "initial_attrs args =
     [(''email'', get args ''email''),
      (''project'', get args ''project''),
      (''force'', PStr (py_str (get args ''force''))),
      (''infer_schema'', PStr (py_str (get args ''infer_schema''))),
      (''append'', PStr (py_str (get args ''append'')))]"

text \<open>\<open>process\<close>, action \<open>create\<close>: the minute (both files).\<close>

definition choose_minute :: "nat \<Rightarrow> dict \<Rightarrow> pyval" where
  "choose_minute draw args =
     (if truthy (get args ''minute'') then get args ''minute''
      else PInt (randrange draw 0 59))"

text \<open>\<open>args.get('hour') if args.get('hour') else dflt\<close>.\<close>

definition hour_or :: "dict \<Rightarrow> string \<Rightarrow> pyval" where
  "hour_or args dflt = (if truthy (get args ''hour'') then get args ''hour'' else PStr dflt)"

text \<open>
  \<open>process\<close>, action \<open>create\<close>: \<open>name\<close>, \<open>schedule\<close> and the \<open>job\<close> dictionary, from the
  variables the chain assigned (both files).
\<close>

definition assemble :: "pyval \<Rightarrow> selection \<Rightarrow> create_vars" where
  "assemble minute s =
     (let args = s_args s;
          name = s_action s @ ''-'' @ py_str (s_product s) @ ''-''
                   @ py_str (get args ''report_id'');
          schedule = py_str minute @ '' '' @ py_str (s_hour s) @ '' * * *'';
          job = [(''description'', get args ''description''),
                 (''timeZone'', if truthy (get args ''timezone'') then get args ''timezone''
                                else PStr ''UTC''),
                 (''api_key'', get args ''api_key''),
                 (''name'', PStr name),
                 (''schedule'', PStr schedule),
                 (''topic'', PStr (s_topic s)),
                 (''attributes'', PDict (s_attrs s))]
      in \<lparr> v_minute = minute, v_hour = s_hour s, v_action = s_action s,
           v_topic = s_topic s, v_product = s_product s, v_type = s_type s,
           v_attrs = s_attrs s, v_name = name, v_schedule = schedule, v_job = job \<rparr>)"

subsection \<open>\<open>appengine/classes/scheduler.py\<close>\<close>

text \<open>
  The chain of lines 142 to 200. \<open>Type.SA360_RPT.value\<close> comes from
  \<open>classes.report_type\<close>, which is not among the sources: it is the parameter
  \<open>sa360_rpt\<close>.
\<close>

definition select_A :: "pyval \<Rightarrow> dict \<Rightarrow> dict \<Rightarrow> selection" where
  "select_A sa360_rpt args attrs0 =
     (if truthy (get args ''sa360_url'') then
        \<lparr> s_product = PStr ''sa360'', s_type = PStr ''sa360'',
          s_hour = hour_or args ''3'',
          s_action = ''fetch'', s_topic = ''report2bq-trigger'',
          s_attrs = dict_update attrs0
            [(''sa360_url'', get args ''sa360_url''), (''type'', PStr ''sa360'')],
          s_args = args \<rparr>
      else if truthy (get args ''sa360_id'') then
        \<lparr> s_product = sa360_rpt, s_type = sa360_rpt,
          s_hour = dict_get args ''hour'' (PStr ''*''),
          s_action = ''run'', s_topic = ''report-runner'',
          s_attrs = dict_update attrs0
            [(''report_id'', get args ''sa360_id''), (''type'', sa360_rpt)],
          s_args = AList.update ''report_id'' (get args ''sa360_id'') args \<rparr>
      else if truthy (get args ''adh_customer'') then
        \<lparr> s_product = PStr ''adh'', s_type = PStr ''adh'',
          s_hour = hour_or args ''2'',
          s_action = ''run'', s_topic = ''report2bq-trigger'',
          s_attrs = dict_update attrs0
            [(''adh_customer'', get args ''adh_customer''),
             (''adh_query'', get args ''adh_query''),
             (''api_key'', get args ''api_key''),
             (''days'', get args ''days''),
             (''type'', PStr ''adh'')],
          s_args = args \<rparr>
      else
        (let hour = (if truthy (get args ''runner'') then hour_or args ''1'' else PStr ''*'');
             action = (if truthy (get args ''runner'') then ''run'' else ''fetch'');
             topic = (if truthy (get args ''runner'') then ''report-runner''
                      else ''report2bq-trigger'')
         in if truthy (get args ''profile'') then
              \<lparr> s_product = PStr ''cm'', s_type = PStr ''cm'', s_hour = hour,
                s_action = action, s_topic = topic,
                s_attrs = dict_update attrs0
                  [(''profile'', get args ''profile''),
                   (''cm_id'', get args ''report_id''),
                   (''type'', PStr ''cm'')],
                s_args = args \<rparr>
            else
              \<lparr> s_product = PStr ''dv360'', s_type = PStr ''dv360'', s_hour = hour,
                s_action = action, s_topic = topic,
                s_attrs = dict_update attrs0
                  [(''dv360_id'', get args ''report_id''), (''type'', PStr ''dv360'')],
                s_args = args \<rparr>))"

text \<open>Lines 128 to 213: everything the \<open>create\<close> action computes before it calls \<open>create_job\<close>.\<close>

definition process_create_A :: "pyval \<Rightarrow> nat \<Rightarrow> dict \<Rightarrow> create_vars" where
  "process_create_A sa360_rpt draw args =
     assemble (choose_minute draw args) (select_A sa360_rpt args (initial_attrs args))"

subsection \<open>\<open>classes/scheduler.py\<close>\<close>

text \<open>The chain of lines 101 to 147.\<close>

definition select_B :: "dict \<Rightarrow> dict \<Rightarrow> selection" where
  "select_B args attrs0 =
     (if truthy (get args ''sa360_url'') then
        \<lparr> s_product = PStr ''sa360'', s_type = PStr ''sa360'',
          s_hour = hour_or args ''3'',
          s_action = ''fetch'', s_topic = ''report2bq-trigger'',
          s_attrs = dict_update attrs0
            [(''sa360_url'', get args ''sa360_url''), (''type'', PStr ''sa360'')],
          s_args = args \<rparr>
      else if truthy (get args ''adh_customer'') then
        \<lparr> s_product = PStr ''adh'', s_type = PStr ''adh'',
          s_hour = hour_or args ''2'',
          s_action = ''run'', s_topic = ''report2bq-trigger'',
          s_attrs = dict_update attrs0
            [(''adh_customer'', get args ''adh_customer''),
             (''adh_query'', get args ''adh_query''),
             (''api_key'', get args ''api_key''),
             (''days'', get args ''days''),
             (''type'', PStr ''adh'')],
          s_args = args \<rparr>
      else
        (let hour = (if truthy (get args ''runner'') then hour_or args ''1'' else PStr ''*'');
             action = (if truthy (get args ''runner'') then ''run'' else ''fetch'');
             topic = (if truthy (get args ''runner'') then ''rerport_runner''
                      else ''report2bq-trigger'')
         in if truthy (get args ''profile'') then
              \<lparr> s_product = PStr ''cm'', s_type = PStr ''cm'', s_hour = hour,
                s_action = action, s_topic = topic,
                s_attrs = dict_update attrs0
                  [(''profile'', get args ''profile''),
                   (''cm_id'', get args ''report_id''),
                   (''type'', PStr ''cm'')],
                s_args = args \<rparr>
            else
              \<lparr> s_product = PStr ''dv360'', s_type = PStr ''dbm'', s_hour = hour,
                s_action = action, s_topic = topic,
                s_attrs = dict_update attrs0
                  [(''dv360_id'', get args ''report_id''), (''type'', PStr ''dbm'')],
                s_args = args \<rparr>))"

text \<open>Lines 87 to 160.\<close>

definition process_create_B :: "nat \<Rightarrow> dict \<Rightarrow> create_vars" where
  "process_create_B draw args =
     assemble (choose_minute draw args) (select_B args (initial_attrs args))"

section \<open>The operations of \<open>appengine/classes/scheduler.py\<close>\<close>

definition list_locations_A :: "'r client \<Rightarrow> pyval \<Rightarrow> (pyval list, 'r) io" where
  "list_locations_A c project =
     io_bind (get_service c) (\<lambda>_.
     io_bind (fetch c (LocationsList (project_path project))) (\<lambda>locations_response.
     io_lift
       (bind_result (py_getitem (PDict locations_response) ''locations'') (\<lambda>ls.
        bind_result (py_iter ls)
          (map_result (\<lambda>location. py_getitem location ''locationId''))))))"

text \<open>
  \<open>if not location: locations = self.list_locations(...); location = locations[-1]\<close>,
  as \<open>list_jobs\<close>, \<open>delete_job\<close>, \<open>get_job\<close>, \<open>enable_job\<close> and \<open>create_job\<close> of this
  file have it.
\<close>

definition default_location_A :: "'r client \<Rightarrow> pyval \<Rightarrow> pyval \<Rightarrow> (pyval, 'r) io" where
  "default_location_A c project location =
     (if \<not> truthy location
      then io_bind (list_locations_A c project) (\<lambda>locations. io_lift (last_item locations))
      else io_return location)"

text \<open>
  The \<open>while True\<close> loop of \<open>list_jobs\<close> (both files), with its variables \<open>token\<close> and
  \<open>jobs\<close>. Nothing bounds the number of pages: where the remote side never stops handing
  out tokens the loop does not return, which is the value \<open>None\<close>.
\<close>

partial_function (option) list_jobs_loop ::
  "'r client \<Rightarrow> string \<Rightarrow> pyval \<Rightarrow> pyval list \<Rightarrow> 'r \<Rightarrow> ((error + pyval list) \<times> 'r) option"
where
  "list_jobs_loop c parent token jobs r =
     (case fetch c (JobsList parent token) r of
        (Inl e, r') \<Rightarrow> Some (Inl e, r')
      | (Inr page, r') \<Rightarrow>
          (case (case map_of page ''jobs'' of None \<Rightarrow> Inr [] | Some js \<Rightarrow> py_iter js) of
             Inl e \<Rightarrow> Some (Inl e, r')
           | Inr js \<Rightarrow>
               (case map_of page ''nextPageToken'' of
                  None \<Rightarrow> Some (Inr (jobs @ js), r')
                | Some t \<Rightarrow> list_jobs_loop c parent t (jobs @ js) r')))"

text \<open>\<open>j.get('pubsubTarget', {}).get('attributes', {}).get('email', '')\<close>.\<close>

definition job_email :: "pyval \<Rightarrow> error + pyval" where
  "job_email j =
     bind_result (py_get j ''pubsubTarget'' (PDict [])) (\<lambda>target.
     bind_result (py_get target ''attributes'' (PDict [])) (\<lambda>attributes.
     py_get attributes ''email'' (PStr '''')))"

text \<open>The filter of \<open>list_jobs\<close> (both files), drawn to the end.\<close>

definition filter_jobs :: "pyval \<Rightarrow> pyval list \<Rightarrow> error + pyval list" where
  "filter_jobs email jobs =
     filter_result (\<lambda>j. bind_result (job_email j) (\<lambda>e. Inr (py_eq e email))) jobs"

definition list_jobs_A ::
  "'r client \<Rightarrow> pyval \<Rightarrow> pyval \<Rightarrow> pyval \<Rightarrow> 'r \<Rightarrow> ((error + pyval list) \<times> 'r) option"
where
  "list_jobs_A c project location email r =
     (case io_bind (get_service c) (\<lambda>_. default_location_A c project location) r of
        (Inl e, r1) \<Rightarrow> Some (Inl e, r1)
      | (Inr location', r1) \<Rightarrow>
          (case list_jobs_loop c (client_location_path project location') PNone [] r1 of
             None \<Rightarrow> None
           | Some (Inl e, r2) \<Rightarrow> Some (Inl e, r2)
           | Some (Inr jobs, r2) \<Rightarrow>
               Some (if truthy email \<and> jobs \<noteq> [] then filter_jobs email jobs else Inr jobs,
                     r2)))"

text \<open>
  \<open>try: ... except HttpError as error: e = json.loads(error.content); return (False, e)\<close>.
  Only \<open>HttpError\<close> is caught.
\<close>

definition catch_http :: "'r client \<Rightarrow> (bool \<times> pyval, 'r) io \<Rightarrow> (bool \<times> pyval, 'r) io" where
  "catch_http c body r =
     (case body r of
        (Inl (HttpError content), r') \<Rightarrow>
          (bind_result (json_loads c content) (\<lambda>e. Inr (False, e)), r')
      | (Inl e, r') \<Rightarrow> (Inl e, r')
      | (Inr x, r') \<Rightarrow> (Inr x, r'))"

definition delete_job_A ::
  "'r client \<Rightarrow> pyval \<Rightarrow> pyval \<Rightarrow> pyval \<Rightarrow> (bool \<times> pyval, 'r) io"
where
  "delete_job_A c job_id project location =
     io_bind (get_service c) (\<lambda>_.
     io_bind (default_location_A c project location) (\<lambda>location'.
     catch_http c
       (io_bind (execute c (JobsDelete (client_job_path project location' job_id)))
          (\<lambda>_. io_return (True, PNone)))))"

definition get_job_A ::
  "'r client \<Rightarrow> pyval \<Rightarrow> pyval \<Rightarrow> pyval \<Rightarrow> (bool \<times> pyval, 'r) io"
where
  "get_job_A c job_id project location =
     io_bind (get_service c) (\<lambda>_.
     io_bind (default_location_A c project location) (\<lambda>location'.
     catch_http c
       (io_bind (execute c (JobsGet (client_job_path project location' job_id)))
          (\<lambda>job. io_return (True, job)))))"

definition enable_job_A ::
  "'r client \<Rightarrow> pyval \<Rightarrow> pyval \<Rightarrow> pyval \<Rightarrow> bool \<Rightarrow> (bool \<times> pyval, 'r) io"
where
  "enable_job_A c job_id project location enable =
     io_bind (get_service c) (\<lambda>_.
     io_bind (default_location_A c project location) (\<lambda>location'.
     catch_http c
       (io_bind
          (execute c
             ((if enable then JobsResume else JobsPause)
                (client_job_path project location' job_id)))
          (\<lambda>_. io_return (True, PNone)))))"

text \<open>The request body \<open>create_job\<close> builds (both files).\<close>

definition create_job_body :: "pyval \<Rightarrow> pyval \<Rightarrow> dict \<Rightarrow> dict" where
  "create_job_body project location job =
     (let target =
            [(''topicName'', PStr (''projects/'' @ py_str project @ ''/topics/''
                                    @ py_str (dict_get job ''topic'' (PStr '''')))),
             (''attributes'', dict_get job ''attributes'' (PStr ''''))]
      in [(''name'', PStr (client_job_path project location
                             (dict_get job ''name'' (PStr '''')))),
          (''description'', dict_get job ''description'' (PStr '''')),
          (''schedule'', dict_get job ''schedule'' (PStr '''')),
          (''timeZone'', dict_get job ''timezone'' (PStr '''')),
          (''pubsubTarget'', PDict target)])"

definition create_job_A :: "'r client \<Rightarrow> pyval \<Rightarrow> pyval \<Rightarrow> dict \<Rightarrow> (unit, 'r) io" where
  "create_job_A c project location job =
     io_bind (get_service c) (\<lambda>_.
     io_bind (default_location_A c project location) (\<lambda>location'.
     io_bind
       (execute c (JobsCreate (client_location_path project location')
                     (PDict (create_job_body project location' job))))
       (\<lambda>_. io_return ())))"

text \<open>What \<open>process\<close> returns: nothing, a string, the job list, or a pair.\<close>

datatype presult = RNone | RStr string | RJobs "pyval list" | RPair bool pyval

text \<open>
  \<open>[f"{job['name']}: {job.get('description') or 'No description.'}<br/>" for job in jobs]\<close>,
  written to one string.
\<close>

definition job_lines :: "pyval list \<Rightarrow> error + string" where
  "job_lines jobs =
     bind_result
       (map_result (\<lambda>job.
          bind_result (py_getitem job ''name'') (\<lambda>name.
          bind_result (py_get job ''description'' PNone) (\<lambda>description.
          Inr (py_str name @ '': ''
                 @ py_str (if truthy description then description
                           else PStr ''No description.'')
                 @ ''<br/>''))))
          jobs)
       (\<lambda>lines. Inr (concat lines))"

text \<open>\<open>'OK'\<close> on success, else \<open>f'ERROR!\n{error["error"]["message"]}'\<close>.\<close>

definition ok_or_error :: "bool \<times> pyval \<Rightarrow> error + presult" where
  "ok_or_error res =
     (if fst res then Inr (RStr ''OK'')
      else bind_result (py_getitem (snd res) ''error'') (\<lambda>err.
           bind_result (py_getitem err ''message'') (\<lambda>message.
           Inr (RStr (''ERROR!'' @ [CHR 0x0A] @ py_str message)))))"

definition process_A ::
  "'r client \<Rightarrow> pyval \<Rightarrow> nat \<Rightarrow> dict \<Rightarrow> 'r \<Rightarrow> ((error + presult) \<times> 'r) option"
where
  "process_A c sa360_rpt draw args r =
     (let action = get args ''action'';
          project = get args ''project'';
          email = get args ''email'';
          html = dict_get args ''html'' (PBool True)
      in case io_bind (list_locations_A c project)
                (\<lambda>locations. io_lift (last_item locations)) r of
           (Inl e, r1) \<Rightarrow> Some (Inl e, r1)
         | (Inr location, r1) \<Rightarrow>
             if py_eq action (PStr ''list'') then
               (case list_jobs_A c project location email r1 of
                  None \<Rightarrow> None
                | Some (Inl e, r2) \<Rightarrow> Some (Inl e, r2)
                | Some (Inr jobs, r2) \<Rightarrow>
                    Some (if truthy html
                          then bind_result (job_lines jobs) (\<lambda>text. Inr (RStr text))
                          else Inr (RJobs jobs), r2))
             else if py_eq action (PStr ''get'') then
               Some (io_bind (get_job_A c (get args ''job_id'') project location)
                       (\<lambda>res. io_return (RPair (fst res) (snd res))) r1)
             else if py_eq action (PStr ''delete'') then
               Some (io_bind (delete_job_A c (get args ''job_id'') project location)
                       (\<lambda>res. io_lift (ok_or_error res)) r1)
             else if py_eq action (PStr ''enable'') then
               Some (io_bind (enable_job_A c (get args ''job_id'') project location True)
                       (\<lambda>res. io_lift (ok_or_error res)) r1)
             else if py_eq action (PStr ''disable'') then
               Some (io_bind (enable_job_A c (get args ''job_id'') project location False)
                       (\<lambda>res. io_lift (ok_or_error res)) r1)
             else if py_eq action (PStr ''create'') then
               Some (io_bind
                       (create_job_A c project location
                          (v_job (process_create_A sa360_rpt draw args)))
                       (\<lambda>_. io_return RNone) r1)
             else Some (Inr RNone, r1))"

section \<open>The operations of \<open>classes/scheduler.py\<close>\<close>

text \<open>
  This file builds \<open>Credentials(email, project)\<close> first and hands it to \<open>get_service\<close>;
  the class is not among the sources and takes no other part. The operations use the
  \<open>location\<close> they are given.
\<close>

definition list_locations_B :: "'r client \<Rightarrow> pyval \<Rightarrow> (pyval list, 'r) io" where
  "list_locations_B c project =
     io_bind (get_service c) (\<lambda>_.
     io_bind (fetch c (LocationsList (client_project_path project))) (\<lambda>locations_response.
     io_lift
       (bind_result (py_getitem (PDict locations_response) ''locations'') (\<lambda>ls.
        bind_result (py_iter ls)
          (map_result (\<lambda>location. py_getitem location ''locationId''))))))"

text \<open>
  \<open>list_jobs\<close> returns the \<open>filter\<close> object itself here; it stands for the list it yields,
  and an exception of its predicate for an exception of the operation.
\<close>

definition list_jobs_B ::
  "'r client \<Rightarrow> pyval \<Rightarrow> pyval \<Rightarrow> pyval \<Rightarrow> 'r \<Rightarrow> ((error + pyval list) \<times> 'r) option"
where
  "list_jobs_B c project location email r =
     (case get_service c r of
        (Inl e, r1) \<Rightarrow> Some (Inl e, r1)
      | (Inr _, r1) \<Rightarrow>
          (case list_jobs_loop c (client_location_path project location) PNone [] r1 of
             None \<Rightarrow> None
           | Some (Inl e, r2) \<Rightarrow> Some (Inl e, r2)
           | Some (Inr jobs, r2) \<Rightarrow>
               Some (if truthy email \<and> jobs \<noteq> [] then filter_jobs email jobs else Inr jobs,
                     r2)))"

definition delete_job_B ::
  "'r client \<Rightarrow> pyval \<Rightarrow> pyval \<Rightarrow> pyval \<Rightarrow> (bool \<times> pyval, 'r) io"
where
  "delete_job_B c job_id project location =
     io_bind (get_service c) (\<lambda>_.
     catch_http c
       (io_bind (execute c (JobsDelete (client_job_path project location job_id)))
          (\<lambda>_. io_return (True, PNone))))"

definition create_job_B :: "'r client \<Rightarrow> pyval \<Rightarrow> pyval \<Rightarrow> dict \<Rightarrow> (unit, 'r) io" where
  "create_job_B c project location job =
     io_bind (get_service c) (\<lambda>_.
     io_bind
       (execute c (JobsCreate (client_location_path project location)
                     (PDict (create_job_body project location job))))
       (\<lambda>_. io_return ()))"

definition process_B ::
  "'r client \<Rightarrow> nat \<Rightarrow> dict \<Rightarrow> 'r \<Rightarrow> ((error + presult) \<times> 'r) option"
where
  "process_B c draw args r =
     (let action = get args ''action'';
          project = get args ''project'';
          email = get args ''email''
      in case io_bind (list_locations_B c project)
                (\<lambda>locations. io_lift (last_item locations)) r of
           (Inl e, r1) \<Rightarrow> Some (Inl e, r1)
         | (Inr location, r1) \<Rightarrow>
             if py_eq action (PStr ''list'') then
               (case list_jobs_B c project location email r1 of
                  None \<Rightarrow> None
                | Some (Inl e, r2) \<Rightarrow> Some (Inl e, r2)
                | Some (Inr jobs, r2) \<Rightarrow>
                    Some (bind_result (job_lines jobs) (\<lambda>text. Inr (RStr text)), r2))
             else if py_eq action (PStr ''delete'') then
               Some (io_bind (delete_job_B c (get args ''job_id'') project location)
                       (\<lambda>res. io_lift (ok_or_error res)) r1)
             else if py_eq action (PStr ''create'') then
               Some (io_bind
                       (create_job_B c project location
                          (v_job (process_create_B draw args)))
                       (\<lambda>_. io_return RNone) r1)
             else Some (Inr RNone, r1))"

section \<open>Notions the properties are stated with\<close>

text \<open>The selector fields of an \<open>args\<close> dictionary that hold a truthy value.\<close>

definition selected :: "dict \<Rightarrow> string list \<Rightarrow> string list" where
  "selected args ks = filter (\<lambda>k. truthy (get args k)) ks"

text \<open>
  A job as the Cloud Scheduler API describes it: a JSON object whose \<open>pubsubTarget\<close>, where
  it has one, is an object, whose \<open>attributes\<close>, where it has them, are an object.
\<close>

fun is_dict :: "pyval \<Rightarrow> bool" where
  "is_dict (PDict d) = True"
| "is_dict _ = False"

definition job_resource :: "pyval \<Rightarrow> bool" where
  "job_resource j =
     (case j of
        PDict d \<Rightarrow>
          (case map_of d ''pubsubTarget'' of
             None \<Rightarrow> True
           | Some (PDict t) \<Rightarrow>
               (case map_of t ''attributes'' of None \<Rightarrow> True | Some a \<Rightarrow> is_dict a)
           | Some _ \<Rightarrow> False)
      | _ \<Rightarrow> False)"

text \<open>
  The field \<open>pubsubTarget.attributes.email\<close> of a job; a job that lacks the field counts
  as having the email \<open>''\<close>.
\<close>

definition email_field :: "pyval \<Rightarrow> pyval" where
  "email_field j =
     (case j of
        PDict d \<Rightarrow>
          (case map_of d ''pubsubTarget'' of
             Some (PDict t) \<Rightarrow>
               (case map_of t ''attributes'' of
                  Some (PDict a) \<Rightarrow>
                    (case map_of a ''email'' of Some v \<Rightarrow> v | None \<Rightarrow> PStr '''')
                | _ \<Rightarrow> PStr '''')
           | _ \<Rightarrow> PStr '''')
      | _ \<Rightarrow> PStr '''')"

text \<open>
  A page of \<open>jobs.list\<close>: an optional \<open>jobs\<close> array and an optional \<open>nextPageToken\<close>.
  A page without the key \<open>jobs\<close> contributes nothing.
\<close>

definition page_shape :: "dict \<Rightarrow> bool" where
  "page_shape p =
     (case map_of p ''jobs'' of None \<Rightarrow> True | Some (PList js) \<Rightarrow> True | Some _ \<Rightarrow> False)"

definition page_jobs :: "dict \<Rightarrow> pyval list" where
  "page_jobs p = (case map_of p ''jobs'' of Some (PList js) \<Rightarrow> js | _ \<Rightarrow> [])"

definition has_next :: "dict \<Rightarrow> bool" where
  "has_next p = (map_of p ''nextPageToken'' \<noteq> None)"

definition next_token :: "dict \<Rightarrow> pyval" where
  "next_token p = get p ''nextPageToken''"

text \<open>The exceptions \<open>except HttpError\<close> catches.\<close>

fun is_http_error :: "error \<Rightarrow> bool" where
  "is_http_error (HttpError content) = True"
| "is_http_error _ = False"

text \<open>
  A remote side that plays a script: each call takes the next outcome of the script and
  is written to a log. Its state is the rest of the script and the log.
\<close>

type_synonym script = "(error + dict) list \<times> request list"

definition play :: "request \<Rightarrow> (dict, script) io" where
  "play req s =
     (case fst s of
        [] \<Rightarrow> (Inl (OtherError ''end of script''), ([], snd s @ [req]))
      | x # xs \<Rightarrow> (x, (xs, snd s @ [req])))"

definition loads_empty :: "string \<Rightarrow> error + pyval" where
  "loads_empty s = (if s = ''{}'' then Inr (PDict []) else Inl JSONDecodeError)"

definition scripted :: "script client" where
  "scripted =
     \<lparr> api_key = Some ''key'',
       fetch = play,
       execute = (\<lambda>req. io_bind (play req) (\<lambda>d. io_return (PDict d))),
       json_loads = loads_empty \<rparr>"

declare list_jobs_loop.simps [code]

section \<open>Basic facts\<close>

lemma py_eq_str [simp]: "py_eq v (PStr s) = (v = PStr s)"
  by (cases v) auto

lemma get_service_key: "api_key c = Some k \<Longrightarrow> get_service c = io_return ()"
  by (simp add: get_service_def)

lemma io_bind_return [simp]: "io_bind (io_return x) f = f x"
  by (rule ext) (simp add: io_bind_def io_return_def)

lemma default_location_given:
  "truthy location \<Longrightarrow> default_location_A c project location = io_return location"
  by (simp add: default_location_A_def)

section \<open>Resource naming\<close>

text \<open>
  C7. For every project, location and job identifier, the fully-qualified job name used
  by the create, get, delete, pause and resume operations is exactly the string
  \<open>projects/{project}/locations/{location}/jobs/{job}\<close>. \<open>Scheduler.job_path\<close> yields this
  string, and so does the name each operation puts into its request: get, delete, resume
  and pause of the appengine file (given a location, so that none is looked up), delete of
  the other file, and the \<open>name\<close> of the body \<open>create_job\<close> sends, where the job identifier
  is the \<open>name\<close> entry of the job dictionary.
\<close>

theorem job_name_convention:
  assumes key: "api_key c = Some k" and loc: "location \<noteq> []"
  shows "job_path (PStr project) (PStr location) (PStr job) =
           ''projects/'' @ project @ ''/locations/'' @ location @ ''/jobs/'' @ job
       \<and> delete_job_A c (PStr job) (PStr project) (PStr location) =
           catch_http c
             (io_bind (execute c (JobsDelete
                (''projects/'' @ project @ ''/locations/'' @ location @ ''/jobs/'' @ job)))
                (\<lambda>_. io_return (True, PNone)))
       \<and> get_job_A c (PStr job) (PStr project) (PStr location) =
           catch_http c
             (io_bind (execute c (JobsGet
                (''projects/'' @ project @ ''/locations/'' @ location @ ''/jobs/'' @ job)))
                (\<lambda>j. io_return (True, j)))
       \<and> enable_job_A c (PStr job) (PStr project) (PStr location) True =
           catch_http c
             (io_bind (execute c (JobsResume
                (''projects/'' @ project @ ''/locations/'' @ location @ ''/jobs/'' @ job)))
                (\<lambda>_. io_return (True, PNone)))
       \<and> enable_job_A c (PStr job) (PStr project) (PStr location) False =
           catch_http c
             (io_bind (execute c (JobsPause
                (''projects/'' @ project @ ''/locations/'' @ location @ ''/jobs/'' @ job)))
                (\<lambda>_. io_return (True, PNone)))
       \<and> delete_job_B c (PStr job) (PStr project) (PStr location) =
           catch_http c
             (io_bind (execute c (JobsDelete
                (''projects/'' @ project @ ''/locations/'' @ location @ ''/jobs/'' @ job)))
                (\<lambda>_. io_return (True, PNone)))
       \<and> (map_of spec ''name'' = Some (PStr job) \<longrightarrow>
            map_of (create_job_body (PStr project) (PStr location) spec) ''name'' =
              Some (PStr (''projects/'' @ project @ ''/locations/'' @ location
                            @ ''/jobs/'' @ job)))
       \<and> create_job_A c (PStr project) (PStr location) spec =
           io_bind
             (execute c (JobsCreate (''projects/'' @ project @ ''/locations/'' @ location)
                (PDict (create_job_body (PStr project) (PStr location) spec))))
             (\<lambda>_. io_return ())
       \<and> create_job_B c (PStr project) (PStr location) spec =
           io_bind
             (execute c (JobsCreate (''projects/'' @ project @ ''/locations/'' @ location)
                (PDict (create_job_body (PStr project) (PStr location) spec))))
             (\<lambda>_. io_return ())"
  using key loc
  by (simp add: job_path_def client_job_path_def client_location_path_def
      delete_job_A_def get_job_A_def enable_job_A_def delete_job_B_def
      create_job_A_def create_job_B_def
      create_job_body_def get_service_key default_location_given dict_get_def)

theorem job_name_convention_witness:
  "delete_job_A scripted (PStr ''j7'') (PStr ''p'') (PStr ''us'') ([Inr []], []) =
     (Inr (True, PNone), ([], [JobsDelete ''projects/p/locations/us/jobs/j7'']))
   \<and> enable_job_A scripted (PStr ''j7'') (PStr ''p'') (PStr ''us'') False ([Inr []], []) =
     (Inr (True, PNone), ([], [JobsPause ''projects/p/locations/us/jobs/j7'']))
   \<and> map_of (create_job_body (PStr ''p'') (PStr ''us'') [(''name'', PStr ''j7'')]) ''name'' =
     Some (PStr ''projects/p/locations/us/jobs/j7'')"
  using job_name_convention [where c = scripted and k = "''key''" and location = "''us''"
      and project = "''p''" and job = "''j7''" and spec = "[(''name'', PStr ''j7'')]"]
  by (simp add: scripted_def catch_http_def io_bind_def io_return_def play_def)

text \<open>
  C6. For every project string and every job dictionary, \<open>create_job\<close> sets the
  \<open>topicName\<close> of the pub/sub target to exactly \<open>projects/{project}/topics/{topic}\<close>, where
  \<open>topic\<close> is the \<open>topic\<close> entry of the job dictionary, and \<open>''\<close> when there is none. The
  body with this target is the one both files send (the appengine file when it is given
  a location).
\<close>

theorem create_job_topic_name:
  assumes key: "api_key c = Some k"
  shows "bind_result
           (py_getitem (PDict (create_job_body (PStr project) location job)) ''pubsubTarget'')
           (\<lambda>target. py_getitem target ''topicName'') =
         Inr (PStr (''projects/'' @ project @ ''/topics/''
                @ (case map_of job ''topic'' of None \<Rightarrow> '''' | Some t \<Rightarrow> py_str t)))
       \<and> create_job_B c (PStr project) location job =
           io_bind
             (execute c (JobsCreate (client_location_path (PStr project) location)
                (PDict (create_job_body (PStr project) location job))))
             (\<lambda>_. io_return ())
       \<and> (truthy location \<longrightarrow>
           create_job_A c (PStr project) location job =
             io_bind
               (execute c (JobsCreate (client_location_path (PStr project) location)
                  (PDict (create_job_body (PStr project) location job))))
               (\<lambda>_. io_return ()))"
  using key
  by (simp add: create_job_A_def create_job_B_def create_job_body_def bind_result_def
      get_service_key default_location_given dict_get_def split: option.split)

theorem create_job_topic_name_witness:
  "create_job_A scripted (PStr ''p'') (PStr ''us'') [(''topic'', PStr ''report-runner'')]
     ([Inr []], []) =
   (Inr (), ([], [JobsCreate ''projects/p/locations/us''
      (PDict [(''name'', PStr ''projects/p/locations/us/jobs/''),
              (''description'', PStr ''''),
              (''schedule'', PStr ''''),
              (''timeZone'', PStr ''''),
              (''pubsubTarget'',
               PDict [(''topicName'', PStr ''projects/p/topics/report-runner''),
                      (''attributes'', PStr '''')])])]))"
  using create_job_topic_name [where c = scripted and k = "''key''" and project = "''p''"
      and location = "PStr ''us''" and job = "[(''topic'', PStr ''report-runner'')]"]
  by (simp add: scripted_def io_bind_def io_return_def play_def create_job_body_def
      client_location_path_def client_job_path_def dict_get_def)

section \<open>The job specification\<close>

lemma selection_A:
  "select_A t args (initial_attrs args) =
     (if truthy (get args ''sa360_url'') then
        \<lparr> s_product = PStr ''sa360'', s_type = PStr ''sa360'', s_hour = hour_or args ''3'',
          s_action = ''fetch'', s_topic = ''report2bq-trigger'',
          s_attrs = initial_attrs args @
            [(''sa360_url'', get args ''sa360_url''), (''type'', PStr ''sa360'')],
          s_args = args \<rparr>
      else if truthy (get args ''sa360_id'') then
        \<lparr> s_product = t, s_type = t, s_hour = dict_get args ''hour'' (PStr ''*''),
          s_action = ''run'', s_topic = ''report-runner'',
          s_attrs = initial_attrs args @
            [(''report_id'', get args ''sa360_id''), (''type'', t)],
          s_args = AList.update ''report_id'' (get args ''sa360_id'') args \<rparr>
      else if truthy (get args ''adh_customer'') then
        \<lparr> s_product = PStr ''adh'', s_type = PStr ''adh'', s_hour = hour_or args ''2'',
          s_action = ''run'', s_topic = ''report2bq-trigger'',
          s_attrs = initial_attrs args @
            [(''adh_customer'', get args ''adh_customer''),
             (''adh_query'', get args ''adh_query''),
             (''api_key'', get args ''api_key''),
             (''days'', get args ''days''),
             (''type'', PStr ''adh'')],
          s_args = args \<rparr>
      else
        \<lparr> s_product = PStr (if truthy (get args ''profile'') then ''cm'' else ''dv360''),
          s_type = PStr (if truthy (get args ''profile'') then ''cm'' else ''dv360''),
          s_hour = (if truthy (get args ''runner'') then hour_or args ''1'' else PStr ''*''),
          s_action = (if truthy (get args ''runner'') then ''run'' else ''fetch''),
          s_topic = (if truthy (get args ''runner'') then ''report-runner''
                     else ''report2bq-trigger''),
          s_attrs = initial_attrs args @
            (if truthy (get args ''profile'')
             then [(''profile'', get args ''profile''), (''cm_id'', get args ''report_id''),
                   (''type'', PStr ''cm'')]
             else [(''dv360_id'', get args ''report_id''), (''type'', PStr ''dv360'')]),
          s_args = args \<rparr>)"
  by (simp add: select_A_def dict_update_def initial_attrs_def Let_def)

lemma selection_B:
  "select_B args (initial_attrs args) =
     (if truthy (get args ''sa360_url'') then
        \<lparr> s_product = PStr ''sa360'', s_type = PStr ''sa360'', s_hour = hour_or args ''3'',
          s_action = ''fetch'', s_topic = ''report2bq-trigger'',
          s_attrs = initial_attrs args @
            [(''sa360_url'', get args ''sa360_url''), (''type'', PStr ''sa360'')],
          s_args = args \<rparr>
      else if truthy (get args ''adh_customer'') then
        \<lparr> s_product = PStr ''adh'', s_type = PStr ''adh'', s_hour = hour_or args ''2'',
          s_action = ''run'', s_topic = ''report2bq-trigger'',
          s_attrs = initial_attrs args @
            [(''adh_customer'', get args ''adh_customer''),
             (''adh_query'', get args ''adh_query''),
             (''api_key'', get args ''api_key''),
             (''days'', get args ''days''),
             (''type'', PStr ''adh'')],
          s_args = args \<rparr>
      else
        \<lparr> s_product = PStr (if truthy (get args ''profile'') then ''cm'' else ''dv360''),
          s_type = PStr (if truthy (get args ''profile'') then ''cm'' else ''dbm''),
          s_hour = (if truthy (get args ''runner'') then hour_or args ''1'' else PStr ''*''),
          s_action = (if truthy (get args ''runner'') then ''run'' else ''fetch''),
          s_topic = (if truthy (get args ''runner'') then ''rerport_runner''
                     else ''report2bq-trigger''),
          s_attrs = initial_attrs args @
            (if truthy (get args ''profile'')
             then [(''profile'', get args ''profile''), (''cm_id'', get args ''report_id''),
                   (''type'', PStr ''cm'')]
             else [(''dv360_id'', get args ''report_id''), (''type'', PStr ''dbm'')]),
          s_args = args \<rparr>)"
  by (simp add: select_B_def dict_update_def initial_attrs_def Let_def)

lemma assemble_fields [simp]:
  "v_minute (assemble m s) = m"
  "v_hour (assemble m s) = s_hour s"
  "v_action (assemble m s) = s_action s"
  "v_topic (assemble m s) = s_topic s"
  "v_product (assemble m s) = s_product s"
  "v_type (assemble m s) = s_type s"
  "v_attrs (assemble m s) = s_attrs s"
  "v_schedule (assemble m s) = py_str m @ '' '' @ py_str (s_hour s) @ '' * * *''"
  by (simp_all add: assemble_def Let_def)

lemma map_of_initial_attrs:
  "k \<notin> {''email'', ''project'', ''force'', ''infer_schema'', ''append''} \<Longrightarrow>
   map_of (initial_attrs args @ kvs) k = map_of kvs k"
  by (auto simp add: initial_attrs_def)

lemma randrange_minute: "0 \<le> randrange draw 0 59 \<and> randrange draw 0 59 \<le> 58"
proof -
  have "int draw mod 59 < 59" by simp
  moreover have "0 \<le> int draw mod 59" by simp
  ultimately show ?thesis by (simp add: randrange_def)
qed

text \<open>
  C10, as amended. For every \<open>args\<close> dictionary with action \<open>create\<close> whose \<open>minute\<close> entry is
  missing or not truthy (\<open>None\<close>, \<open>False\<close>, \<open>0\<close>, \<open>''\<close>, an empty list or dictionary), the
  minute placed in the schedule string \<open>{minute} {hour} * * *\<close> is an integer from 0 to 58,
  never 59; a truthy \<open>minute\<close> entry is used verbatim. Both files.
\<close>

theorem schedule_minute:
  fixes t :: pyval and draw :: nat and args :: dict
  defines "A \<equiv> process_create_A t draw args" and "B \<equiv> process_create_B draw args"
  shows "(\<not> truthy (get args ''minute'') \<longrightarrow>
            (\<exists>m. 0 \<le> m \<and> m \<le> 58
               \<and> v_minute A = PInt m \<and> v_minute B = PInt m
               \<and> v_schedule A = py_str (PInt m) @ '' '' @ py_str (v_hour A) @ '' * * *''
               \<and> v_schedule B = py_str (PInt m) @ '' '' @ py_str (v_hour B) @ '' * * *''))
       \<and> (truthy (get args ''minute'') \<longrightarrow>
            v_minute A = get args ''minute'' \<and> v_minute B = get args ''minute''
            \<and> v_schedule A =
                py_str (get args ''minute'') @ '' '' @ py_str (v_hour A) @ '' * * *''
            \<and> v_schedule B =
                py_str (get args ''minute'') @ '' '' @ py_str (v_hour B) @ '' * * *'')"
proof (rule conjI; rule impI)
  assume "\<not> truthy (get args ''minute'')"
  then have m: "choose_minute draw args = PInt (randrange draw 0 59)"
    by (simp add: choose_minute_def)
  show "\<exists>m. 0 \<le> m \<and> m \<le> 58
               \<and> v_minute A = PInt m \<and> v_minute B = PInt m
               \<and> v_schedule A = py_str (PInt m) @ '' '' @ py_str (v_hour A) @ '' * * *''
               \<and> v_schedule B = py_str (PInt m) @ '' '' @ py_str (v_hour B) @ '' * * *''"
    using randrange_minute [of draw]
    by (intro exI [of _ "randrange draw 0 59"])
       (simp add: A_def B_def process_create_A_def process_create_B_def m)
next
  assume "truthy (get args ''minute'')"
  then have m: "choose_minute draw args = get args ''minute''"
    by (simp add: choose_minute_def)
  show "v_minute A = get args ''minute'' \<and> v_minute B = get args ''minute''
            \<and> v_schedule A =
                py_str (get args ''minute'') @ '' '' @ py_str (v_hour A) @ '' * * *''
            \<and> v_schedule B =
                py_str (get args ''minute'') @ '' '' @ py_str (v_hour B) @ '' * * *''"
    by (simp add: A_def B_def process_create_A_def process_create_B_def m)
qed

theorem schedule_minute_witness:
  "(\<exists>m. 0 \<le> m \<and> m \<le> 58
      \<and> v_minute (process_create_B 100 [(''action'', PStr ''create'')]) = PInt m)
   \<and> v_schedule (process_create_A (PStr ''sa360_report'') 100
        [(''action'', PStr ''create''), (''minute'', PStr ''30''), (''runner'', PBool True)])
      = ''30 1 * * *''"
  using schedule_minute [where draw = 100 and args = "[(''action'', PStr ''create'')]"]
    schedule_minute [where draw = 100 and t = "PStr ''sa360_report''"
      and args = "[(''action'', PStr ''create''), (''minute'', PStr ''30''),
                   (''runner'', PBool True)]"]
  by (simp add: dict_get_def process_create_A_def selection_A hour_or_def) blast

theorem schedule_minute_counterexample:
  "map_of [(''action'', PStr ''create''), (''minute'', PInt 0)] ''minute'' = Some (PInt 0)
   \<and> v_minute (process_create_A (PStr ''sa360_report'') 100
        [(''action'', PStr ''create''), (''minute'', PInt 0)]) = PInt 41
   \<and> v_schedule (process_create_A (PStr ''sa360_report'') 100
        [(''action'', PStr ''create''), (''minute'', PInt 0)]) = ''41 * * * *''
   \<and> v_minute (process_create_B 100
        [(''action'', PStr ''create''), (''minute'', PInt 0)]) = PInt 41
   \<and> v_schedule (process_create_B 100
        [(''action'', PStr ''create''), (''minute'', PInt 0)]) = ''41 * * * *''"
  by (simp add: process_create_A_def process_create_B_def selection_A selection_B
      choose_minute_def randrange_def dict_get_def dec_digits.simps)

text \<open>
  C1, as amended. For every \<open>args\<close> dictionary with action \<open>create\<close> in which at most one
  of the selector fields \<open>sa360_url\<close>, \<open>adh_customer\<close>, \<open>runner\<close>, \<open>profile\<close> holds a truthy
  value (and, for the appengine file, \<open>sa360_id\<close> does not, except in the first case):
  a truthy \<open>sa360_url\<close> gives topic \<open>report2bq-trigger\<close>, action \<open>fetch\<close>, hour defaulting
  to \<open>3\<close>, and the attributes \<open>sa360_url\<close> and type \<open>sa360\<close>; a truthy \<open>adh_customer\<close> gives
  topic \<open>report2bq-trigger\<close>, action \<open>run\<close>, hour defaulting to \<open>2\<close>, and the attributes
  \<open>adh_customer\<close>, \<open>adh_query\<close>, \<open>api_key\<close>, \<open>days\<close> and type \<open>adh\<close>; a truthy \<open>runner\<close>
  gives action \<open>run\<close> and hour defaulting to \<open>1\<close>; with none of these three, action \<open>fetch\<close>,
  topic \<open>report2bq-trigger\<close> and hour \<open>*\<close>; and outside the SA360 and ADH cases the
  attributes carry \<open>profile\<close> and \<open>cm_id\<close> with type \<open>cm\<close> when \<open>profile\<close> is truthy, else
  \<open>dv360_id\<close> with type \<open>dv360\<close> (appengine) or \<open>dbm\<close> (the other file).
\<close>

theorem create_mapping:
  fixes t :: pyval and draw :: nat and args :: dict
  defines "A \<equiv> process_create_A t draw args" and "B \<equiv> process_create_B draw args"
  assumes one:
    "length (selected args [''sa360_url'', ''adh_customer'', ''runner'', ''profile'']) \<le> 1"
  shows "(truthy (get args ''sa360_url'') \<longrightarrow>
            v_topic A = ''report2bq-trigger'' \<and> v_action A = ''fetch''
            \<and> v_hour A = (if truthy (get args ''hour'') then get args ''hour'' else PStr ''3'')
            \<and> map_of (v_attrs A) ''sa360_url'' = Some (get args ''sa360_url'')
            \<and> map_of (v_attrs A) ''type'' = Some (PStr ''sa360'')
            \<and> v_topic B = ''report2bq-trigger'' \<and> v_action B = ''fetch''
            \<and> v_hour B = (if truthy (get args ''hour'') then get args ''hour'' else PStr ''3'')
            \<and> map_of (v_attrs B) ''sa360_url'' = Some (get args ''sa360_url'')
            \<and> map_of (v_attrs B) ''type'' = Some (PStr ''sa360''))
       \<and> (truthy (get args ''adh_customer'') \<longrightarrow>
            v_topic B = ''report2bq-trigger'' \<and> v_action B = ''run''
            \<and> v_hour B = (if truthy (get args ''hour'') then get args ''hour'' else PStr ''2'')
            \<and> map_of (v_attrs B) ''adh_customer'' = Some (get args ''adh_customer'')
            \<and> map_of (v_attrs B) ''adh_query'' = Some (get args ''adh_query'')
            \<and> map_of (v_attrs B) ''api_key'' = Some (get args ''api_key'')
            \<and> map_of (v_attrs B) ''days'' = Some (get args ''days'')
            \<and> map_of (v_attrs B) ''type'' = Some (PStr ''adh'')
            \<and> (\<not> truthy (get args ''sa360_id'') \<longrightarrow>
                 v_topic A = ''report2bq-trigger'' \<and> v_action A = ''run''
                 \<and> v_hour A =
                     (if truthy (get args ''hour'') then get args ''hour'' else PStr ''2'')
                 \<and> map_of (v_attrs A) ''adh_customer'' = Some (get args ''adh_customer'')
                 \<and> map_of (v_attrs A) ''adh_query'' = Some (get args ''adh_query'')
                 \<and> map_of (v_attrs A) ''api_key'' = Some (get args ''api_key'')
                 \<and> map_of (v_attrs A) ''days'' = Some (get args ''days'')
                 \<and> map_of (v_attrs A) ''type'' = Some (PStr ''adh'')))
       \<and> (truthy (get args ''runner'') \<longrightarrow>
            v_action B = ''run''
            \<and> v_hour B = (if truthy (get args ''hour'') then get args ''hour'' else PStr ''1'')
            \<and> (\<not> truthy (get args ''sa360_id'') \<longrightarrow>
                 v_action A = ''run''
                 \<and> v_hour A =
                     (if truthy (get args ''hour'') then get args ''hour'' else PStr ''1'')))
       \<and> (selected args [''sa360_url'', ''adh_customer'', ''runner''] = [] \<longrightarrow>
            v_action B = ''fetch'' \<and> v_topic B = ''report2bq-trigger'' \<and> v_hour B = PStr ''*''
            \<and> (\<not> truthy (get args ''sa360_id'') \<longrightarrow>
                 v_action A = ''fetch'' \<and> v_topic A = ''report2bq-trigger''
                 \<and> v_hour A = PStr ''*''))
       \<and> (selected args [''sa360_url'', ''adh_customer''] = [] \<longrightarrow>
            (truthy (get args ''profile'') \<longrightarrow>
               map_of (v_attrs B) ''profile'' = Some (get args ''profile'')
               \<and> map_of (v_attrs B) ''cm_id'' = Some (get args ''report_id'')
               \<and> map_of (v_attrs B) ''type'' = Some (PStr ''cm'')
               \<and> (\<not> truthy (get args ''sa360_id'') \<longrightarrow>
                    map_of (v_attrs A) ''profile'' = Some (get args ''profile'')
                    \<and> map_of (v_attrs A) ''cm_id'' = Some (get args ''report_id'')
                    \<and> map_of (v_attrs A) ''type'' = Some (PStr ''cm'')))
            \<and> (\<not> truthy (get args ''profile'') \<longrightarrow>
               map_of (v_attrs B) ''dv360_id'' = Some (get args ''report_id'')
               \<and> map_of (v_attrs B) ''type'' = Some (PStr ''dbm'')
               \<and> (\<not> truthy (get args ''sa360_id'') \<longrightarrow>
                    map_of (v_attrs A) ''dv360_id'' = Some (get args ''report_id'')
                    \<and> map_of (v_attrs A) ''type'' = Some (PStr ''dv360''))))"
proof -
  have a: "v_attrs A = s_attrs (select_A t args (initial_attrs args))"
    "v_topic A = s_topic (select_A t args (initial_attrs args))"
    "v_action A = s_action (select_A t args (initial_attrs args))"
    "v_hour A = s_hour (select_A t args (initial_attrs args))"
    by (simp_all add: A_def process_create_A_def)
  have b: "v_attrs B = s_attrs (select_B args (initial_attrs args))"
    "v_topic B = s_topic (select_B args (initial_attrs args))"
    "v_action B = s_action (select_B args (initial_attrs args))"
    "v_hour B = s_hour (select_B args (initial_attrs args))"
    by (simp_all add: B_def process_create_B_def)
  show ?thesis
    using one unfolding a b selection_A selection_B
    by (simp add: selected_def hour_or_def map_of_initial_attrs del: map_of_append
        split: if_split_asm)
qed

theorem create_mapping_witness:
  "v_hour (process_create_A (PStr ''sa360_report'') 7
      [(''action'', PStr ''create''), (''sa360_url'', PStr ''https://sa/report'')]) = PStr ''3''
   \<and> map_of (v_attrs (process_create_B 7
      [(''action'', PStr ''create''), (''adh_customer'', PStr ''c1''),
       (''adh_query'', PStr ''q1''), (''hour'', PStr ''5'')])) ''adh_query'' = Some (PStr ''q1'')
   \<and> v_hour (process_create_A (PStr ''sa360_report'') 7
      [(''action'', PStr ''create''), (''runner'', PBool True)]) = PStr ''1''
   \<and> v_topic (process_create_A (PStr ''sa360_report'') 7
      [(''action'', PStr ''create''), (''report_id'', PStr ''42'')]) = ''report2bq-trigger''
   \<and> map_of (v_attrs (process_create_A (PStr ''sa360_report'') 7
      [(''action'', PStr ''create''), (''report_id'', PStr ''42''),
       (''profile'', PStr ''77'')])) ''cm_id'' = Some (PStr ''42'')"
  using
    create_mapping [where t = "PStr ''sa360_report''" and draw = 7 and args =
      "[(''action'', PStr ''create''), (''sa360_url'', PStr ''https://sa/report'')]"]
    create_mapping [where t = "PStr ''sa360_report''" and draw = 7 and args =
      "[(''action'', PStr ''create''), (''adh_customer'', PStr ''c1''),
        (''adh_query'', PStr ''q1''), (''hour'', PStr ''5'')]"]
    create_mapping [where t = "PStr ''sa360_report''" and draw = 7 and args =
      "[(''action'', PStr ''create''), (''runner'', PBool True)]"]
    create_mapping [where t = "PStr ''sa360_report''" and draw = 7 and args =
      "[(''action'', PStr ''create''), (''report_id'', PStr ''42'')]"]
    create_mapping [where t = "PStr ''sa360_report''" and draw = 7 and args =
      "[(''action'', PStr ''create''), (''report_id'', PStr ''42''),
        (''profile'', PStr ''77'')]"]
  by (simp add: selected_def dict_get_def)

theorem create_mapping_counterexample:
  "map_of [(''action'', PStr ''create''), (''sa360_url'', PStr '''')] ''sa360_url''
     = Some (PStr '''')
   \<and> v_hour (process_create_A (PStr ''sa360_report'') 0
        [(''action'', PStr ''create''), (''sa360_url'', PStr '''')]) = PStr ''*''
   \<and> map_of (v_attrs (process_create_A (PStr ''sa360_report'') 0
        [(''action'', PStr ''create''), (''sa360_url'', PStr '''')])) ''sa360_url'' = None
   \<and> map_of (v_attrs (process_create_A (PStr ''sa360_report'') 0
        [(''action'', PStr ''create''), (''sa360_url'', PStr '''')])) ''type''
        = Some (PStr ''dv360'')
   \<and> v_hour (process_create_B 0
        [(''action'', PStr ''create''), (''sa360_url'', PStr '''')]) = PStr ''*''
   \<and> map_of (v_attrs (process_create_B 0
        [(''action'', PStr ''create''), (''sa360_url'', PStr '''')])) ''sa360_url'' = None
   \<and> map_of (v_attrs (process_create_B 0
        [(''action'', PStr ''create''), (''sa360_url'', PStr '''')])) ''type''
        = Some (PStr ''dbm'')
   \<and> v_action (process_create_A (PStr ''sa360_report'') 0
        [(''action'', PStr ''create''), (''sa360_id'', PStr ''9'')]) = ''run''
   \<and> v_topic (process_create_A (PStr ''sa360_report'') 0
        [(''action'', PStr ''create''), (''sa360_id'', PStr ''9'')]) = ''report-runner''
   \<and> map_of (v_attrs (process_create_A (PStr ''sa360_report'') 0
        [(''action'', PStr ''create''), (''sa360_id'', PStr ''9'')])) ''dv360_id'' = None"
  by (simp add: process_create_A_def process_create_B_def select_A_def select_B_def
      dict_update_def dict_get_def initial_attrs_def hour_or_def)

text \<open>
  C9, as amended. For every \<open>args\<close> dictionary with action \<open>create\<close> the derivation follows
  a fixed precedence among the selector fields that hold a truthy value: \<open>sa360_url\<close>
  first, then (appengine file only) \<open>sa360_id\<close>, then \<open>adh_customer\<close>. The topic, action,
  hour and type are those of the one winning branch, and the attribute mapping is the
  five initial attributes followed by the entries of that branch: the later selectors
  leave no trace in it. When none of these is truthy, \<open>runner\<close> and \<open>profile\<close> act
  together: \<open>runner\<close> alone decides the action (\<open>run\<close>, else \<open>fetch\<close>), the hour
  (defaulting to \<open>1\<close>, else \<open>*\<close>) and the topic (\<open>report-runner\<close> in the appengine file,
  else \<open>report2bq-trigger\<close> in both files; the topic of the other file under a truthy
  \<open>runner\<close> is left out), and \<open>profile\<close> alone decides the type (\<open>cm\<close>, else \<open>dv360\<close> in the
  appengine file and \<open>dbm\<close> in the other) and the entries that follow the five initial
  attributes (\<open>profile\<close>, \<open>cm_id\<close> and \<open>type\<close>, else \<open>dv360_id\<close> and \<open>type\<close>).
\<close>

theorem selector_precedence:
  fixes t :: pyval and draw :: nat and args :: dict
  defines "A \<equiv> process_create_A t draw args" and "B \<equiv> process_create_B draw args"
  shows "(truthy (get args ''sa360_url'') \<longrightarrow>
            v_topic A = ''report2bq-trigger'' \<and> v_action A = ''fetch''
            \<and> v_hour A = (if truthy (get args ''hour'') then get args ''hour'' else PStr ''3'')
            \<and> v_type A = PStr ''sa360''
            \<and> v_attrs A = initial_attrs args @
                 [(''sa360_url'', get args ''sa360_url''), (''type'', PStr ''sa360'')]
            \<and> v_topic B = ''report2bq-trigger'' \<and> v_action B = ''fetch''
            \<and> v_hour B = (if truthy (get args ''hour'') then get args ''hour'' else PStr ''3'')
            \<and> v_type B = PStr ''sa360''
            \<and> v_attrs B = initial_attrs args @
                 [(''sa360_url'', get args ''sa360_url''), (''type'', PStr ''sa360'')])
       \<and> (\<not> truthy (get args ''sa360_url'') \<and> truthy (get args ''sa360_id'') \<longrightarrow>
            v_topic A = ''report-runner'' \<and> v_action A = ''run''
            \<and> v_hour A = (case map_of args ''hour'' of None \<Rightarrow> PStr ''*'' | Some h \<Rightarrow> h)
            \<and> v_type A = t
            \<and> v_attrs A = initial_attrs args @
                 [(''report_id'', get args ''sa360_id''), (''type'', t)])
       \<and> (\<not> truthy (get args ''sa360_url'') \<and> truthy (get args ''adh_customer'') \<longrightarrow>
            v_topic B = ''report2bq-trigger'' \<and> v_action B = ''run''
            \<and> v_hour B = (if truthy (get args ''hour'') then get args ''hour'' else PStr ''2'')
            \<and> v_type B = PStr ''adh''
            \<and> v_attrs B = initial_attrs args @
                 [(''adh_customer'', get args ''adh_customer''),
                  (''adh_query'', get args ''adh_query''),
                  (''api_key'', get args ''api_key''),
                  (''days'', get args ''days''),
                  (''type'', PStr ''adh'')]
            \<and> (\<not> truthy (get args ''sa360_id'') \<longrightarrow>
                 v_topic A = v_topic B \<and> v_action A = v_action B \<and> v_hour A = v_hour B
                 \<and> v_type A = v_type B \<and> v_attrs A = v_attrs B))
       \<and> (\<not> truthy (get args ''sa360_url'') \<and> \<not> truthy (get args ''adh_customer'') \<longrightarrow>
            v_action B = (if truthy (get args ''runner'') then ''run'' else ''fetch'')
            \<and> v_hour B =
                (if truthy (get args ''runner'')
                 then (if truthy (get args ''hour'') then get args ''hour'' else PStr ''1'')
                 else PStr ''*'')
            \<and> (\<not> truthy (get args ''runner'') \<longrightarrow> v_topic B = ''report2bq-trigger'')
            \<and> v_type B = PStr (if truthy (get args ''profile'') then ''cm'' else ''dbm'')
            \<and> v_attrs B = initial_attrs args @
                 (if truthy (get args ''profile'')
                  then [(''profile'', get args ''profile''),
                        (''cm_id'', get args ''report_id''),
                        (''type'', PStr ''cm'')]
                  else [(''dv360_id'', get args ''report_id''), (''type'', PStr ''dbm'')])
            \<and> (\<not> truthy (get args ''sa360_id'') \<longrightarrow>
                 v_action A = (if truthy (get args ''runner'') then ''run'' else ''fetch'')
                 \<and> v_hour A =
                     (if truthy (get args ''runner'')
                      then (if truthy (get args ''hour'') then get args ''hour''
                            else PStr ''1'')
                      else PStr ''*'')
                 \<and> v_topic A =
                     (if truthy (get args ''runner'') then ''report-runner''
                      else ''report2bq-trigger'')
                 \<and> v_type A = PStr (if truthy (get args ''profile'') then ''cm'' else ''dv360'')
                 \<and> v_attrs A = initial_attrs args @
                      (if truthy (get args ''profile'')
                       then [(''profile'', get args ''profile''),
                             (''cm_id'', get args ''report_id''),
                             (''type'', PStr ''cm'')]
                       else [(''dv360_id'', get args ''report_id''),
                             (''type'', PStr ''dv360'')])))"
proof -
  have a: "v_attrs A = s_attrs (select_A t args (initial_attrs args))"
    "v_topic A = s_topic (select_A t args (initial_attrs args))"
    "v_action A = s_action (select_A t args (initial_attrs args))"
    "v_hour A = s_hour (select_A t args (initial_attrs args))"
    "v_type A = s_type (select_A t args (initial_attrs args))"
    by (simp_all add: A_def process_create_A_def)
  have b: "v_attrs B = s_attrs (select_B args (initial_attrs args))"
    "v_topic B = s_topic (select_B args (initial_attrs args))"
    "v_action B = s_action (select_B args (initial_attrs args))"
    "v_hour B = s_hour (select_B args (initial_attrs args))"
    "v_type B = s_type (select_B args (initial_attrs args))"
    by (simp_all add: B_def process_create_B_def)
  show ?thesis
    unfolding a b selection_A selection_B
    by (simp add: hour_or_def dict_get_def)
qed

theorem selector_precedence_witness:
  "v_type (process_create_A (PStr ''sa360_report'') 7
      [(''action'', PStr ''create''), (''sa360_url'', PStr ''u''),
       (''adh_customer'', PStr ''c''), (''runner'', PBool True)]) = PStr ''sa360''
   \<and> v_topic (process_create_A (PStr ''sa360_report'') 7
      [(''action'', PStr ''create''), (''sa360_id'', PStr ''9''),
       (''adh_customer'', PStr ''c'')]) = ''report-runner''
   \<and> map (\<lambda>kv. fst kv) (v_attrs (process_create_B 7
      [(''action'', PStr ''create''), (''adh_customer'', PStr ''c''),
       (''runner'', PBool True), (''profile'', PStr ''77'')]))
      = [''email'', ''project'', ''force'', ''infer_schema'', ''append'',
         ''adh_customer'', ''adh_query'', ''api_key'', ''days'', ''type'']
   \<and> v_topic (process_create_A (PStr ''sa360_report'') 7
      [(''action'', PStr ''create''), (''runner'', PBool True),
       (''profile'', PStr ''77''), (''report_id'', PStr ''42'')]) = ''report-runner''
   \<and> v_hour (process_create_B 7
      [(''action'', PStr ''create''), (''runner'', PBool True),
       (''profile'', PStr ''77''), (''report_id'', PStr ''42'')]) = PStr ''1''
   \<and> map_of (v_attrs (process_create_B 7
      [(''action'', PStr ''create''), (''runner'', PBool True),
       (''profile'', PStr ''77''), (''report_id'', PStr ''42'')])) ''cm_id''
      = Some (PStr ''42'')"
  using
    selector_precedence [where t = "PStr ''sa360_report''" and draw = 7 and args =
      "[(''action'', PStr ''create''), (''sa360_url'', PStr ''u''),
        (''adh_customer'', PStr ''c''), (''runner'', PBool True)]"]
    selector_precedence [where t = "PStr ''sa360_report''" and draw = 7 and args =
      "[(''action'', PStr ''create''), (''sa360_id'', PStr ''9''),
        (''adh_customer'', PStr ''c'')]"]
    selector_precedence [where t = "PStr ''sa360_report''" and draw = 7 and args =
      "[(''action'', PStr ''create''), (''adh_customer'', PStr ''c''),
        (''runner'', PBool True), (''profile'', PStr ''77'')]"]
    selector_precedence [where t = "PStr ''sa360_report''" and draw = 7 and args =
      "[(''action'', PStr ''create''), (''runner'', PBool True),
        (''profile'', PStr ''77''), (''report_id'', PStr ''42'')]"]
  by (simp add: dict_get_def initial_attrs_def)

theorem selector_precedence_counterexample:
  "v_topic (process_create_A (PStr ''sa360_report'') 0
      [(''action'', PStr ''create''), (''sa360_id'', PStr ''9''),
       (''adh_customer'', PStr ''c''), (''runner'', PStr ''1'')]) = ''report-runner''
   \<and> v_type (process_create_A (PStr ''sa360_report'') 0
      [(''action'', PStr ''create''), (''sa360_id'', PStr ''9''),
       (''adh_customer'', PStr ''c''), (''runner'', PStr ''1'')]) = PStr ''sa360_report''
   \<and> map_of (v_attrs (process_create_A (PStr ''sa360_report'') 0
      [(''action'', PStr ''create''), (''sa360_id'', PStr ''9''),
       (''adh_customer'', PStr ''c''), (''runner'', PStr ''1'')])) ''adh_customer'' = None
   \<and> v_type (process_create_B 0
      [(''action'', PStr ''create''), (''sa360_url'', PStr ''''),
       (''adh_customer'', PStr ''c'')]) = PStr ''adh''
   \<and> map_of (v_attrs (process_create_B 0
      [(''action'', PStr ''create''), (''sa360_url'', PStr ''''),
       (''adh_customer'', PStr ''c'')])) ''sa360_url'' = None"
  by (simp add: process_create_A_def process_create_B_def select_A_def select_B_def
      dict_update_def dict_get_def initial_attrs_def hour_or_def)

text \<open>
  C8, as amended. For every \<open>args\<close> dictionary with action \<open>create\<close> in which \<open>sa360_id\<close>
  is not truthy, the two files derive the same action and hour, and the same topic when
  \<open>runner\<close> is not truthy. When \<open>sa360_url\<close>, \<open>adh_customer\<close> or \<open>profile\<close> is truthy they
  derive the same type and the same attribute mapping; otherwise their attribute mappings
  differ in the \<open>type\<close> entry alone, which is \<open>dv360\<close> in the appengine file and \<open>dbm\<close> in
  the other.
\<close>

theorem implementations_agree:
  fixes t :: pyval and draw :: nat and args :: dict
  defines "A \<equiv> process_create_A t draw args" and "B \<equiv> process_create_B draw args"
  assumes no_id: "\<not> truthy (get args ''sa360_id'')"
  shows "v_action A = v_action B \<and> v_hour A = v_hour B
       \<and> (\<not> truthy (get args ''runner'') \<longrightarrow> v_topic A = v_topic B)
       \<and> (selected args [''sa360_url'', ''adh_customer'', ''profile''] \<noteq> [] \<longrightarrow>
            v_type A = v_type B \<and> v_attrs A = v_attrs B)
       \<and> (selected args [''sa360_url'', ''adh_customer'', ''profile''] = [] \<longrightarrow>
            v_type A = PStr ''dv360'' \<and> v_type B = PStr ''dbm''
            \<and> v_attrs A = initial_attrs args @
                 [(''dv360_id'', get args ''report_id''), (''type'', PStr ''dv360'')]
            \<and> v_attrs B = initial_attrs args @
                 [(''dv360_id'', get args ''report_id''), (''type'', PStr ''dbm'')])"
proof -
  have a: "v_attrs A = s_attrs (select_A t args (initial_attrs args))"
    "v_topic A = s_topic (select_A t args (initial_attrs args))"
    "v_action A = s_action (select_A t args (initial_attrs args))"
    "v_hour A = s_hour (select_A t args (initial_attrs args))"
    "v_type A = s_type (select_A t args (initial_attrs args))"
    by (simp_all add: A_def process_create_A_def)
  have b: "v_attrs B = s_attrs (select_B args (initial_attrs args))"
    "v_topic B = s_topic (select_B args (initial_attrs args))"
    "v_action B = s_action (select_B args (initial_attrs args))"
    "v_hour B = s_hour (select_B args (initial_attrs args))"
    "v_type B = s_type (select_B args (initial_attrs args))"
    by (simp_all add: B_def process_create_B_def)
  show ?thesis
    using no_id unfolding a b selection_A selection_B
    by (simp add: selected_def)
qed

theorem implementations_agree_witness:
  "v_attrs (process_create_A (PStr ''sa360_report'') 7
      [(''action'', PStr ''create''), (''profile'', PStr ''77''), (''report_id'', PStr ''42'')])
   = v_attrs (process_create_B 7
      [(''action'', PStr ''create''), (''profile'', PStr ''77''), (''report_id'', PStr ''42'')])
   \<and> v_type (process_create_B 7 [(''action'', PStr ''create''), (''runner'', PBool True)])
     = PStr ''dbm''"
  using
    implementations_agree [where t = "PStr ''sa360_report''" and draw = 7 and args =
      "[(''action'', PStr ''create''), (''profile'', PStr ''77''),
        (''report_id'', PStr ''42'')]"]
    implementations_agree [where t = "PStr ''sa360_report''" and draw = 7 and args =
      "[(''action'', PStr ''create''), (''runner'', PBool True)]"]
  by (simp add: selected_def dict_get_def)

theorem implementations_agree_counterexample:
  "v_type (process_create_A (PStr ''sa360_report'') 0 [(''action'', PStr ''create'')])
     = PStr ''dv360''
   \<and> v_type (process_create_B 0 [(''action'', PStr ''create'')]) = PStr ''dbm''
   \<and> map_of (v_attrs (process_create_A (PStr ''sa360_report'') 0
        [(''action'', PStr ''create'')])) ''type'' = Some (PStr ''dv360'')
   \<and> map_of (v_attrs (process_create_B 0 [(''action'', PStr ''create'')])) ''type''
        = Some (PStr ''dbm'')"
  by (simp add: process_create_A_def process_create_B_def select_A_def select_B_def
      dict_update_def dict_get_def initial_attrs_def)

section \<open>Creating a job\<close>

text \<open>
  C5. The job specification \<open>process\<close> assembles carries the timezone of the request
  under the key \<open>timeZone\<close>, but \<open>create_job\<close> reads the key \<open>timezone\<close>, so the job it
  creates has the time zone \<open>''\<close>. For the request with timezone \<open>Europe/London\<close> against
  a remote side that lists one location and accepts the job, both files send a body whose
  \<open>timeZone\<close> is the empty string.
\<close>

theorem created_job_time_zone:
  "map_of (v_job (process_create_A (PStr ''sa360_report'') 0
       [(''action'', PStr ''create''), (''project'', PStr ''p''),
        (''timezone'', PStr ''Europe/London''), (''report_id'', PStr ''42'')])) ''timeZone''
     = Some (PStr ''Europe/London'')
   \<and> process_A scripted (PStr ''sa360_report'') 0
       [(''action'', PStr ''create''), (''project'', PStr ''p''),
        (''timezone'', PStr ''Europe/London''), (''report_id'', PStr ''42'')]
       ([Inr [(''locations'', PList [PDict [(''locationId'', PStr ''us-central1'')]])],
         Inr []], [])
     = Some (Inr RNone, ([],
         [LocationsList ''projects/p'',
          JobsCreate ''projects/p/locations/us-central1''
            (PDict [(''name'',
                     PStr ''projects/p/locations/us-central1/jobs/fetch-dv360-42''),
                    (''description'', PNone),
                    (''schedule'', PStr ''0 * * * *''),
                    (''timeZone'', PStr ''''),
                    (''pubsubTarget'',
                     PDict [(''topicName'', PStr ''projects/p/topics/report2bq-trigger''),
                            (''attributes'',
                             PDict [(''email'', PNone), (''project'', PStr ''p''),
                                    (''force'', PStr ''None''),
                                    (''infer_schema'', PStr ''None''),
                                    (''append'', PStr ''None''),
                                    (''dv360_id'', PStr ''42''),
                                    (''type'', PStr ''dv360'')])])])]))
   \<and> process_B scripted 0
       [(''action'', PStr ''create''), (''project'', PStr ''p''),
        (''timezone'', PStr ''Europe/London''), (''report_id'', PStr ''42'')]
       ([Inr [(''locations'', PList [PDict [(''locationId'', PStr ''us-central1'')]])],
         Inr []], [])
     = Some (Inr RNone, ([],
         [LocationsList ''projects/p'',
          JobsCreate ''projects/p/locations/us-central1''
            (PDict [(''name'',
                     PStr ''projects/p/locations/us-central1/jobs/fetch-dv360-42''),
                    (''description'', PNone),
                    (''schedule'', PStr ''0 * * * *''),
                    (''timeZone'', PStr ''''),
                    (''pubsubTarget'',
                     PDict [(''topicName'', PStr ''projects/p/topics/report2bq-trigger''),
                            (''attributes'',
                             PDict [(''email'', PNone), (''project'', PStr ''p''),
                                    (''force'', PStr ''None''),
                                    (''infer_schema'', PStr ''None''),
                                    (''append'', PStr ''None''),
                                    (''dv360_id'', PStr ''42''),
                                    (''type'', PStr ''dbm'')])])])]))"
  by code_simp

section \<open>Remote failures\<close>

lemma catch_http_success:
  "execute c req r = (Inr v, r') \<Longrightarrow>
   catch_http c (io_bind (execute c req) (\<lambda>x. io_return (True, f x))) r
     = (Inr (True, f v), r')"
  by (simp add: catch_http_def io_bind_def io_return_def)

lemma catch_http_failure:
  "execute c req r = (Inl (HttpError content), r') \<Longrightarrow> json_loads c content = Inr e \<Longrightarrow>
   catch_http c (io_bind (execute c req) (\<lambda>x. io_return (True, f x))) r
     = (Inr (False, e), r')"
  by (simp add: catch_http_def io_bind_def bind_result_def)

lemma catch_http_undecoded:
  "execute c req r = (Inl (HttpError content), r') \<Longrightarrow> json_loads c content = Inl x \<Longrightarrow>
   catch_http c (io_bind (execute c req) (\<lambda>x. io_return (True, f x))) r = (Inl x, r')"
  by (simp add: catch_http_def io_bind_def bind_result_def)

lemma catch_http_other:
  "execute c req r = (Inl err, r') \<Longrightarrow> \<not> is_http_error err \<Longrightarrow>
   catch_http c (io_bind (execute c req) (\<lambda>x. io_return (True, f x))) r = (Inl err, r')"
  by (cases err) (simp_all add: catch_http_def io_bind_def)

text \<open>
  C4, as amended. For the operations \<open>delete_job\<close>, \<open>get_job\<close> and \<open>enable_job\<close> of the
  appengine file (given a location) and \<open>delete_job\<close> of the other file, and every outcome
  of the remote call: when the call succeeds, the operation returns a pair whose first
  component is \<open>True\<close>; when it fails with an \<open>HttpError\<close> whose body \<open>json.loads\<close> decodes,
  the operation returns the pair of \<open>False\<close> and the decoded payload; when \<open>json.loads\<close>
  raises on the body, the operation raises that exception; when the call fails with any
  other exception, the operation raises it. In every case the remote state is the one
  that single call left: the request is issued once, and a failed call is not issued again.
\<close>

theorem remote_failure_pair:
  assumes key: "api_key c = Some k" and loc: "truthy location"
  shows "(execute c (JobsDelete (client_job_path project location job_id)) r = (Inr v, r') \<longrightarrow>
            delete_job_A c job_id project location r = (Inr (True, PNone), r')
          \<and> delete_job_B c job_id project location r = (Inr (True, PNone), r'))
       \<and> (execute c (JobsDelete (client_job_path project location job_id)) r
             = (Inl (HttpError content), r') \<and> json_loads c content = Inr e \<longrightarrow>
            delete_job_A c job_id project location r = (Inr (False, e), r')
          \<and> delete_job_B c job_id project location r = (Inr (False, e), r'))
       \<and> (execute c (JobsDelete (client_job_path project location job_id)) r
             = (Inl (HttpError content), r') \<and> json_loads c content = Inl x \<longrightarrow>
            delete_job_A c job_id project location r = (Inl x, r')
          \<and> delete_job_B c job_id project location r = (Inl x, r'))
       \<and> (execute c (JobsDelete (client_job_path project location job_id)) r = (Inl err, r')
             \<and> \<not> is_http_error err \<longrightarrow>
            delete_job_A c job_id project location r = (Inl err, r')
          \<and> delete_job_B c job_id project location r = (Inl err, r'))
       \<and> (execute c (JobsGet (client_job_path project location job_id)) r = (Inr v, r') \<longrightarrow>
            get_job_A c job_id project location r = (Inr (True, v), r'))
       \<and> (execute c (JobsGet (client_job_path project location job_id)) r
             = (Inl (HttpError content), r') \<and> json_loads c content = Inr e \<longrightarrow>
            get_job_A c job_id project location r = (Inr (False, e), r'))
       \<and> (execute c (JobsGet (client_job_path project location job_id)) r
             = (Inl (HttpError content), r') \<and> json_loads c content = Inl x \<longrightarrow>
            get_job_A c job_id project location r = (Inl x, r'))
       \<and> (execute c (JobsGet (client_job_path project location job_id)) r = (Inl err, r')
             \<and> \<not> is_http_error err \<longrightarrow>
            get_job_A c job_id project location r = (Inl err, r'))
       \<and> (execute c ((if enable then JobsResume else JobsPause)
                        (client_job_path project location job_id)) r = (Inr v, r') \<longrightarrow>
            enable_job_A c job_id project location enable r = (Inr (True, PNone), r'))
       \<and> (execute c ((if enable then JobsResume else JobsPause)
                        (client_job_path project location job_id)) r
             = (Inl (HttpError content), r') \<and> json_loads c content = Inr e \<longrightarrow>
            enable_job_A c job_id project location enable r = (Inr (False, e), r'))
       \<and> (execute c ((if enable then JobsResume else JobsPause)
                        (client_job_path project location job_id)) r
             = (Inl (HttpError content), r') \<and> json_loads c content = Inl x \<longrightarrow>
            enable_job_A c job_id project location enable r = (Inl x, r'))
       \<and> (execute c ((if enable then JobsResume else JobsPause)
                        (client_job_path project location job_id)) r = (Inl err, r')
             \<and> \<not> is_http_error err \<longrightarrow>
            enable_job_A c job_id project location enable r = (Inl err, r'))"
proof -
  have del_A: "delete_job_A c job_id project location =
      catch_http c (io_bind (execute c (JobsDelete (client_job_path project location job_id)))
        (\<lambda>x. io_return (True, PNone)))"
    using key loc by (simp add: delete_job_A_def get_service_key default_location_given)
  have del_B: "delete_job_B c job_id project location =
      catch_http c (io_bind (execute c (JobsDelete (client_job_path project location job_id)))
        (\<lambda>x. io_return (True, PNone)))"
    using key by (simp add: delete_job_B_def get_service_key)
  have get_A: "get_job_A c job_id project location =
      catch_http c (io_bind (execute c (JobsGet (client_job_path project location job_id)))
        (\<lambda>x. io_return (True, x)))"
    using key loc by (simp add: get_job_A_def get_service_key default_location_given)
  have en_A: "enable_job_A c job_id project location enable =
      catch_http c (io_bind (execute c ((if enable then JobsResume else JobsPause)
        (client_job_path project location job_id))) (\<lambda>x. io_return (True, PNone)))"
    using key loc by (simp add: enable_job_A_def get_service_key default_location_given)
  show ?thesis
    unfolding del_A del_B get_A en_A
    by (intro conjI impI; (elim conjE)?)
       (simp_all add: catch_http_success catch_http_failure catch_http_undecoded
          catch_http_other)
qed

theorem remote_failure_pair_witness:
  "delete_job_A scripted (PStr ''j7'') (PStr ''p'') (PStr ''us'') ([Inl (HttpError ''{}'')], [])
     = (Inr (False, PDict []), ([], [JobsDelete ''projects/p/locations/us/jobs/j7'']))
   \<and> get_job_A scripted (PStr ''j7'') (PStr ''p'') (PStr ''us'')
       ([Inr [(''name'', PStr ''j7'')]], [])
     = (Inr (True, PDict [(''name'', PStr ''j7'')]),
        ([], [JobsGet ''projects/p/locations/us/jobs/j7'']))
   \<and> delete_job_B scripted (PStr ''j7'') (PStr ''p'') (PStr ''us'')
       ([Inl (HttpError ''oops'')], [])
     = (Inl JSONDecodeError, ([], [JobsDelete ''projects/p/locations/us/jobs/j7'']))
   \<and> enable_job_A scripted (PStr ''j7'') (PStr ''p'') (PStr ''us'') True
       ([Inl (OtherError ''timeout'')], [])
     = (Inl (OtherError ''timeout''),
        ([], [JobsResume ''projects/p/locations/us/jobs/j7'']))"
  using
    remote_failure_pair [where c = scripted and k = "''key''" and location = "PStr ''us''"
      and project = "PStr ''p''" and job_id = "PStr ''j7''"
      and r = "([Inl (HttpError ''{}'')], [])" and content = "''{}''" and e = "PDict []"
      and r' = "([], [JobsDelete ''projects/p/locations/us/jobs/j7''])"]
    remote_failure_pair [where c = scripted and k = "''key''" and location = "PStr ''us''"
      and project = "PStr ''p''" and job_id = "PStr ''j7''"
      and r = "([Inr [(''name'', PStr ''j7'')]], [])"
      and v = "PDict [(''name'', PStr ''j7'')]"
      and r' = "([], [JobsGet ''projects/p/locations/us/jobs/j7''])"]
    remote_failure_pair [where c = scripted and k = "''key''" and location = "PStr ''us''"
      and project = "PStr ''p''" and job_id = "PStr ''j7''"
      and r = "([Inl (HttpError ''oops'')], [])" and content = "''oops''"
      and x = JSONDecodeError
      and r' = "([], [JobsDelete ''projects/p/locations/us/jobs/j7''])"]
    remote_failure_pair [where c = scripted and k = "''key''" and location = "PStr ''us''"
      and project = "PStr ''p''" and job_id = "PStr ''j7''" and enable = True
      and r = "([Inl (OtherError ''timeout'')], [])" and err = "OtherError ''timeout''"
      and r' = "([], [JobsResume ''projects/p/locations/us/jobs/j7''])"]
  by (simp add: scripted_def play_def io_bind_def io_return_def loads_empty_def
      client_job_path_def)

theorem remote_failure_pair_counterexample:
  "create_job_A scripted (PStr ''p'') (PStr ''us'') [(''name'', PStr ''j7'')]
       ([Inl (HttpError ''{}'')], [])
     = (Inl (HttpError ''{}''),
        ([], [JobsCreate ''projects/p/locations/us''
                (PDict (create_job_body (PStr ''p'') (PStr ''us'') [(''name'', PStr ''j7'')]))]))
   \<and> create_job_B scripted (PStr ''p'') (PStr ''us'') [(''name'', PStr ''j7'')]
       ([Inl (HttpError ''{}'')], [])
     = (Inl (HttpError ''{}''),
        ([], [JobsCreate ''projects/p/locations/us''
                (PDict (create_job_body (PStr ''p'') (PStr ''us'') [(''name'', PStr ''j7'')]))]))
   \<and> list_locations_A scripted (PStr ''p'') ([Inl (HttpError ''{}'')], [])
     = (Inl (HttpError ''{}''), ([], [LocationsList ''projects/p'']))
   \<and> list_locations_B scripted (PStr ''p'') ([Inl (HttpError ''{}'')], [])
     = (Inl (HttpError ''{}''), ([], [LocationsList ''projects/p'']))
   \<and> delete_job_A scripted (PStr ''j7'') (PStr ''p'') (PStr ''us'')
       ([Inl (HttpError ''oops'')], [])
     = (Inl JSONDecodeError, ([], [JobsDelete ''projects/p/locations/us/jobs/j7'']))
   \<and> delete_job_B scripted (PStr ''j7'') (PStr ''p'') (PStr ''us'')
       ([Inl (HttpError ''oops'')], [])
     = (Inl JSONDecodeError, ([], [JobsDelete ''projects/p/locations/us/jobs/j7'']))"
  by (simp add: create_job_A_def create_job_B_def get_service_def default_location_A_def
      list_locations_A_def list_locations_B_def project_path_def client_project_path_def
      delete_job_A_def delete_job_B_def catch_http_def bind_result_def loads_empty_def
      client_job_path_def
      scripted_def play_def io_bind_def io_return_def client_location_path_def)

section \<open>Listing jobs\<close>

lemma job_email_resource: "job_resource j \<Longrightarrow> job_email j = Inr (email_field j)"
  by (auto simp add: job_resource_def job_email_def email_field_def bind_result_def
      dict_get_def split: pyval.splits option.splits)

lemma filter_result_total:
  "\<forall>x \<in> set xs. p x = Inr (q x) \<Longrightarrow> filter_result p xs = Inr (filter q xs)"
  by (induction xs) (simp_all add: bind_result_def)

lemma filter_jobs_resources:
  assumes "\<forall>j \<in> set jobs. job_resource j"
  shows "filter_jobs (PStr email) jobs = Inr (filter (\<lambda>j. email_field j = PStr email) jobs)"
  unfolding filter_jobs_def
  by (rule filter_result_total) (simp add: assms job_email_resource bind_result_def)

lemma list_jobs_A_given:
  assumes "api_key c = Some k" and "truthy location"
  shows "list_jobs_A c project location email r =
     (case list_jobs_loop c (client_location_path project location) PNone [] r of
        None \<Rightarrow> None
      | Some (Inl e, r2) \<Rightarrow> Some (Inl e, r2)
      | Some (Inr jobs, r2) \<Rightarrow>
          Some (if truthy email \<and> jobs \<noteq> [] then filter_jobs email jobs else Inr jobs, r2))"
  using assms
  by (simp add: list_jobs_A_def get_service_key default_location_given io_return_def)

lemma list_jobs_B_given:
  assumes "api_key c = Some k"
  shows "list_jobs_B c project location email r =
     (case list_jobs_loop c (client_location_path project location) PNone [] r of
        None \<Rightarrow> None
      | Some (Inl e, r2) \<Rightarrow> Some (Inl e, r2)
      | Some (Inr jobs, r2) \<Rightarrow>
          Some (if truthy email \<and> jobs \<noteq> [] then filter_jobs email jobs else Inr jobs, r2))"
  using assms
  by (simp add: list_jobs_B_def get_service_key io_return_def)

text \<open>
  C2. Let the pages of \<open>jobs.list\<close> aggregate to the list \<open>jobs\<close>. For every non-empty
  email string and non-empty \<open>jobs\<close> (of job resources), \<open>list_jobs\<close> returns exactly the
  jobs whose field \<open>pubsubTarget.attributes.email\<close> equals that email, a job without the
  field counting as having the email \<open>''\<close>; when the email argument is empty (\<open>None\<close> or
  \<open>''\<close>) or \<open>jobs\<close> is empty, \<open>jobs\<close> is returned unchanged. Both files; the appengine file
  is given a location.
\<close>

theorem list_jobs_email_filter:
  assumes key: "api_key c = Some k"
    and pages: "list_jobs_loop c (client_location_path project location) PNone [] r
                  = Some (Inr jobs, r')"
  shows "(email \<noteq> [] \<and> jobs \<noteq> [] \<and> (\<forall>j \<in> set jobs. job_resource j) \<longrightarrow>
            list_jobs_B c project location (PStr email) r
              = Some (Inr (filter (\<lambda>j. email_field j = PStr email) jobs), r')
          \<and> (truthy location \<longrightarrow>
               list_jobs_A c project location (PStr email) r
                 = Some (Inr (filter (\<lambda>j. email_field j = PStr email) jobs), r')))
       \<and> (none \<in> {PNone, PStr ''''} \<or> jobs = [] \<longrightarrow>
            list_jobs_B c project location none r = Some (Inr jobs, r')
          \<and> (truthy location \<longrightarrow>
               list_jobs_A c project location none r = Some (Inr jobs, r')))"
proof (rule conjI; rule impI)
  assume h: "email \<noteq> [] \<and> jobs \<noteq> [] \<and> (\<forall>j \<in> set jobs. job_resource j)"
  then have f: "filter_jobs (PStr email) jobs
                  = Inr (filter (\<lambda>j. email_field j = PStr email) jobs)"
    by (simp add: filter_jobs_resources)
  show "list_jobs_B c project location (PStr email) r
              = Some (Inr (filter (\<lambda>j. email_field j = PStr email) jobs), r')
          \<and> (truthy location \<longrightarrow>
               list_jobs_A c project location (PStr email) r
                 = Some (Inr (filter (\<lambda>j. email_field j = PStr email) jobs), r'))"
    using h f by (simp add: list_jobs_A_given [OF key] list_jobs_B_given [OF key] pages)
next
  assume h: "none \<in> {PNone, PStr ''''} \<or> jobs = []"
  then have n: "(truthy none \<and> jobs \<noteq> []) = False" by auto
  show "list_jobs_B c project location none r = Some (Inr jobs, r')
          \<and> (truthy location \<longrightarrow>
               list_jobs_A c project location none r = Some (Inr jobs, r'))"
    by (simp add: list_jobs_A_given [OF key] list_jobs_B_given [OF key] pages n)
qed

theorem list_jobs_email_filter_witness:
  "list_jobs_A scripted (PStr ''p'') (PStr ''us'') (PStr ''a@x.org'')
     ([Inr [(''jobs'', PList
         [PDict [(''name'', PStr ''j1''),
                 (''pubsubTarget'',
                  PDict [(''attributes'', PDict [(''email'', PStr ''a@x.org'')])])],
          PDict [(''name'', PStr ''j2'')]])]], [])
   = Some (Inr [PDict [(''name'', PStr ''j1''),
                       (''pubsubTarget'',
                        PDict [(''attributes'', PDict [(''email'', PStr ''a@x.org'')])])]],
           ([], [JobsList ''projects/p/locations/us'' PNone]))
   \<and> list_jobs_B scripted (PStr ''p'') (PStr ''us'') PNone
     ([Inr [(''jobs'', PList
         [PDict [(''name'', PStr ''j1''),
                 (''pubsubTarget'',
                  PDict [(''attributes'', PDict [(''email'', PStr ''a@x.org'')])])],
          PDict [(''name'', PStr ''j2'')]])]], [])
   = Some (Inr [PDict [(''name'', PStr ''j1''),
                       (''pubsubTarget'',
                        PDict [(''attributes'', PDict [(''email'', PStr ''a@x.org'')])])],
                PDict [(''name'', PStr ''j2'')]],
           ([], [JobsList ''projects/p/locations/us'' PNone]))"
proof -
  have key: "api_key scripted = Some ''key''"
    by (simp add: scripted_def)
  have pages: "list_jobs_loop scripted (client_location_path (PStr ''p'') (PStr ''us'')) PNone []
     ([Inr [(''jobs'', PList
         [PDict [(''name'', PStr ''j1''),
                 (''pubsubTarget'',
                  PDict [(''attributes'', PDict [(''email'', PStr ''a@x.org'')])])],
          PDict [(''name'', PStr ''j2'')]])]], [])
    = Some (Inr [PDict [(''name'', PStr ''j1''),
                       (''pubsubTarget'',
                        PDict [(''attributes'', PDict [(''email'', PStr ''a@x.org'')])])],
                PDict [(''name'', PStr ''j2'')]],
           ([], [JobsList ''projects/p/locations/us'' PNone]))"
    by code_simp
  show ?thesis
    using list_jobs_email_filter [OF key pages, where email = "''a@x.org''" and none = PNone]
    by (simp add: job_resource_def email_field_def)
qed

lemma play_next:
  "play req (Inr p # script, log) = (Inr p, (script, log @ [req]))"
  by (simp add: play_def)

lemma fetch_scripted: "fetch scripted = play"
  by (simp add: scripted_def)

lemma list_jobs_loop_scripted:
  assumes "\<forall>q \<in> set qs. has_next q \<and> page_shape q" and "\<not> has_next p" and "page_shape p"
  shows "list_jobs_loop scripted parent token jobs (map Inr (qs @ p # rest), log)
       = Some (Inr (jobs @ concat (map page_jobs (qs @ [p]))),
               (map Inr rest, log @ map (JobsList parent) (token # map next_token qs)))"
  using assms(1)
proof (induction qs arbitrary: token jobs log)
  case Nil
  show ?case
    using assms(2,3)
    by (subst list_jobs_loop.simps)
       (auto simp add: fetch_scripted play_next has_next_def page_shape_def page_jobs_def
          split: option.splits pyval.splits)
next
  case (Cons q qs)
  from Cons.prems have q: "has_next q" "page_shape q"
    and rest: "\<forall>q \<in> set qs. has_next q \<and> page_shape q"
    by simp_all
  from q(1) obtain tok where tok: "map_of q ''nextPageToken'' = Some tok"
    by (auto simp add: has_next_def)
  then have nt: "next_token q = tok"
    by (simp add: next_token_def dict_get_def)
  have step: "list_jobs_loop scripted parent token jobs (map Inr ((q # qs) @ p # rest), log)
      = list_jobs_loop scripted parent tok (jobs @ page_jobs q)
          (map Inr (qs @ p # rest), log @ [JobsList parent token])"
    using q(2) tok
    by (subst list_jobs_loop.simps)
       (auto simp add: fetch_scripted play_next page_shape_def page_jobs_def
          split: option.splits pyval.splits)
  show ?case
    unfolding step Cons.IH [OF rest]
    by (simp add: nt)
qed

text \<open>
  C3. For every finite sequence of pages the remote \<open>jobs.list\<close> yields (each with an
  optional \<open>jobs\<close> array and an optional \<open>nextPageToken\<close>), \<open>list_jobs\<close> requests pages
  starting with the token \<open>None\<close>, passes the \<open>nextPageToken\<close> of each page to the
  following request, stops at the first page without a \<open>nextPageToken\<close> (the pages after
  it stay unrequested), and its result before filtering is the concatenation of the
  \<open>jobs\<close> arrays of the fetched pages, in order. Both files; the appengine file is
  given a location.
\<close>

theorem list_jobs_pagination:
  assumes more: "\<forall>q \<in> set qs. has_next q \<and> page_shape q"
    and last: "\<not> has_next p" "page_shape p"
  shows "list_jobs_B scripted project location PNone (map Inr (qs @ p # rest), log)
           = Some (Inr (concat (map page_jobs (qs @ [p]))),
                   (map Inr rest,
                    log @ map (JobsList (client_location_path project location))
                            (PNone # map next_token qs)))
       \<and> (truthy location \<longrightarrow>
            list_jobs_A scripted project location PNone (map Inr (qs @ p # rest), log)
              = Some (Inr (concat (map page_jobs (qs @ [p]))),
                      (map Inr rest,
                       log @ map (JobsList (client_location_path project location))
                               (PNone # map next_token qs))))"
proof -
  have key: "api_key scripted = Some ''key''"
    by (simp add: scripted_def)
  show ?thesis
    by (simp add: list_jobs_A_given [OF key] list_jobs_B_given [OF key]
        list_jobs_loop_scripted [OF more last] del: map_append)
qed

theorem list_jobs_pagination_witness:
  "list_jobs_A scripted (PStr ''p'') (PStr ''us'') PNone
     ([Inr [(''jobs'', PList [PStr ''j1'', PStr ''j2'']), (''nextPageToken'', PStr ''t1'')],
       Inr [(''nextPageToken'', PStr ''t2'')],
       Inr [(''jobs'', PList [PStr ''j3''])],
       Inr [(''jobs'', PList [PStr ''j4''])]], [])
   = Some (Inr [PStr ''j1'', PStr ''j2'', PStr ''j3''],
           ([Inr [(''jobs'', PList [PStr ''j4''])]],
            [JobsList ''projects/p/locations/us'' PNone,
             JobsList ''projects/p/locations/us'' (PStr ''t1''),
             JobsList ''projects/p/locations/us'' (PStr ''t2'')]))"
  using list_jobs_pagination [where project = "PStr ''p''" and location = "PStr ''us''"
      and qs = "[[(''jobs'', PList [PStr ''j1'', PStr ''j2'']),
                  (''nextPageToken'', PStr ''t1'')],
                 [(''nextPageToken'', PStr ''t2'')]]"
      and p = "[(''jobs'', PList [PStr ''j3''])]"
      and rest = "[[(''jobs'', PList [PStr ''j4''])]]" and log = "[]"]
  by (simp add: has_next_def page_shape_def page_jobs_def next_token_def dict_get_def
      client_location_path_def)

end
